theory Spec2Isabelle
  imports Main
begin

section \<open>pki.js: CSR policy check and serial numbers\<close>

subsection \<open>The parsed certification request\<close>

text \<open>
  \<open>parseCSR\<close> hands the PEM text to the forge library, which either throws or returns
  the request as an object. The fields \<open>checkCSR\<close> reads are kept: the subject's attributes
  (\<open>name\<close>, absent for an object identifier forge does not know, and \<open>value\<close>), the
  request's attributes (\<open>name\<close>, \<open>extensions\<close>), each extension's \<open>name\<close> and
  \<open>altNames\<close>, and each alternative name's \<open>type\<close> and \<open>value\<close>. A string is held
  as the bytes of its UTF-8 encoding: an ASCII character is one byte below 128, every other
  character is a run of bytes from 128 on. Two strings are equal exactly when their bytes
  are, and no byte of a non-ASCII character is a character of a pattern of the code.
\<close>

record altName =
  an_type :: nat
  an_value :: string

record extension =
  ex_name :: "string option"
  ex_altNames :: "altName list"

record csr_attribute =
  ca_name :: "string option"
  ca_extensions :: "extension list"

record subject_attribute =
  sa_name :: "string option"
  sa_value :: string

record csr =
  csr_subject :: "subject_attribute list"
  csr_attributes :: "csr_attribute list"

text \<open>The object \<open>checkCSR\<close> returns: \<open>{error: msg}\<close> or \<open>{names: list}\<close>.\<close>

datatype csr_result = Error string | Names "string list"

subsection \<open>The DNS name pattern\<close>

text \<open>
  \<open>DNS_RE = /^([a-z0-9][a-z0-9-]{1,62}\.)+[a-z][a-z0-9-]{0,62}$/\<close>. No character class
  of the pattern contains the dot, so a string matches exactly when, cut at its dots, it
  has at least two labels, every label but the last matches \<open>[a-z0-9][a-z0-9-]{1,62}\<close>
  and the last matches \<open>[a-z][a-z0-9-]{0,62}\<close>.
\<close>

definition is_az :: "char \<Rightarrow> bool" where
  "is_az c = (c \<in> set ''abcdefghijklmnopqrstuvwxyz'')"

definition is_az09 :: "char \<Rightarrow> bool" where
  "is_az09 c = (is_az c \<or> c \<in> set ''0123456789'')"

definition is_az09_hyphen :: "char \<Rightarrow> bool" where
  "is_az09_hyphen c = (is_az09 c \<or> c = CHR ''-'')"

fun split_dots :: "string \<Rightarrow> string list" where
  "split_dots [] = [[]]"
| "split_dots (c # cs) =
     (if c = CHR ''.'' then [] # split_dots cs
      else (case split_dots cs of l # ls \<Rightarrow> (c # l) # ls | [] \<Rightarrow> [[c]]))"

definition inner_label :: "string \<Rightarrow> bool" where
  "inner_label l =
     (case l of [] \<Rightarrow> False
      | c # cs \<Rightarrow> is_az09 c \<and> 1 \<le> length cs \<and> length cs \<le> 62 \<and> list_all is_az09_hyphen cs)"

definition last_label :: "string \<Rightarrow> bool" where
  "last_label l =
     (case l of [] \<Rightarrow> False
      | c # cs \<Rightarrow> is_az c \<and> length cs \<le> 62 \<and> list_all is_az09_hyphen cs)"

definition DNS_RE :: "string \<Rightarrow> bool" where
  "DNS_RE s =
     (let ls = split_dots s
      in 2 \<le> length ls \<and> list_all inner_label (butlast ls) \<and> last_label (last ls))"

text \<open>
  \<open>String.prototype.toLowerCase\<close>: on ASCII text it maps \<open>A\<close> to \<open>Z\<close> to \<open>a\<close> to \<open>z\<close> and
  leaves every other character; on text with a character outside ASCII it is the case
  mapping of the JavaScript runtime, \<open>unicode_lower\<close>, which is taken as given.
\<close>

definition lower_char :: "char \<Rightarrow> char" where
  "lower_char c =
     (case map_of (zip ''ABCDEFGHIJKLMNOPQRSTUVWXYZ'' ''abcdefghijklmnopqrstuvwxyz'') c of
        Some d \<Rightarrow> d
      | None \<Rightarrow> c)"

definition is_ascii :: "char \<Rightarrow> bool" where
  "is_ascii c = (\<not> digit7 c)"

definition toLowerCase :: "(string \<Rightarrow> string) \<Rightarrow> string \<Rightarrow> string" where
  "toLowerCase unicode_lower s =
     (if list_all is_ascii s then map lower_char s else unicode_lower s)"

subsection \<open>checkCSR\<close>

text \<open>
  Each category of the request is walked with \<open>Array.prototype.map\<close> and a callback that
  reads and assigns variables of \<open>checkCSR\<close>. A callback is modelled as a function from
  the variable it assigns and the element to the pair of the value it returns
  (\<open>None\<close> when it falls off its end) and the variable afterwards. \<open>map_discard\<close> is
  what \<open>checkCSR\<close> does with \<open>map\<close>: it runs the callback on every element in order and drops
  the array of returned values.
\<close>

definition map_discard :: "('s \<Rightarrow> 'a \<Rightarrow> 'r \<times> 's) \<Rightarrow> 's \<Rightarrow> 'a list \<Rightarrow> 's" where
  "map_discard cb s xs = foldl (\<lambda>st x. snd (cb st x)) s xs"

text \<open>
  \<open>commonName\<close> is \<open>undefined\<close> (\<open>None\<close>) until a callback assigns it a string; the
  empty string is falsy like \<open>undefined\<close>.
\<close>

definition truthy :: "string option \<Rightarrow> bool" where
  "truthy v = (case v of None \<Rightarrow> False | Some s \<Rightarrow> s \<noteq> [])"

definition subject_cb ::
  "(string \<Rightarrow> string) \<Rightarrow> string option \<Rightarrow> subject_attribute
     \<Rightarrow> csr_result option \<times> string option" where
  "subject_cb unicode_lower commonName attr =
     (if sa_name attr \<noteq> Some ''commonName''
      then (Some (Error ''Subject must have only commonName''), commonName)
      else if truthy commonName
      then (Some (Error ''Subject has multiple commonName values''), commonName)
      else (let cn = toLowerCase unicode_lower (sa_value attr)
            in if \<not> DNS_RE cn
               then (Some (Error ''Subject commonName is not a DNS name''), Some cn)
               else (None, Some cn)))"

definition attribute_cb ::
  "extension list \<Rightarrow> csr_attribute \<Rightarrow> csr_result option \<times> extension list" where
  "attribute_cb extensions attr =
     (if ca_name attr \<noteq> Some ''extensionRequest''
      then (Some (Error ''No attributes besides extensionRequest allowed''), extensions)
      else if length extensions > 0
      then (Some (Error ''Multiple extensionRequest attributes''), extensions)
      else (None, ca_extensions attr))"

definition extension_cb ::
  "altName list \<Rightarrow> extension \<Rightarrow> csr_result option \<times> altName list" where
  "extension_cb sans extn =
     (if ex_name extn \<noteq> Some ''subjectAltName''
      then (Some (Error ''Forbidden extension type''), sans)
      else if length sans > 0
      then (Some (Error ''Multiple SAN extensions''), sans)
      else (None, ex_altNames extn))"

text \<open>
  \<open>names\<close> is an object used as a set of keys: \<open>names[name] = true\<close>. The own keys are
  kept in the order of their first assignment. Assigning \<open>true\<close> to the key
  \<open>__proto__\<close> of an object literal runs the inherited setter, which ignores a value that
  is not an object, and creates no key.
\<close>

definition names_put :: "string \<Rightarrow> string list \<Rightarrow> string list" where
  "names_put k ks = (if k = ''__proto__'' \<or> k \<in> set ks then ks else ks @ [k])"

definition san_cb ::
  "(string \<Rightarrow> string) \<Rightarrow> string list \<Rightarrow> altName \<Rightarrow> csr_result option \<times> string list" where
  "san_cb unicode_lower names san =
     (if an_type san \<noteq> 2
      then (Some (Error ''Non-dNSName SAN''), names)
      else (let name = toLowerCase unicode_lower (an_value san)
            in if \<not> DNS_RE name
               then (Some (Error ''dNSName SAN is not a DNS name''), names)
               else (None, names_put name names)))"

text \<open>
  \<open>for (let name in names)\<close> visits the keys that are array indices (the decimal
  numerals of \<open>0 .. 2^32 - 2\<close>, without leading zeros) first, in ascending numeric order,
  and then the other keys in the order of their creation.
\<close>

definition digit_index :: "string \<Rightarrow> char \<Rightarrow> nat" where
  "digit_index digits c = length (takeWhile (\<lambda>d. d \<noteq> c) digits)"

definition dec_value :: "string \<Rightarrow> nat" where
  "dec_value s = foldl (\<lambda>a c. 10 * a + digit_index ''0123456789'' c) 0 s"

definition is_array_index :: "string \<Rightarrow> bool" where
  "is_array_index s =
     (s \<noteq> [] \<and> list_all (\<lambda>c. c \<in> set ''0123456789'') s \<and>
      (s = ''0'' \<or> hd s \<noteq> CHR ''0'') \<and> dec_value s < 2 ^ 32 - 1)"

definition for_in_keys :: "string list \<Rightarrow> string list" where
  "for_in_keys ks =
     sort_key dec_value (filter is_array_index ks) @ filter (\<lambda>k. \<not> is_array_index k) ks"

text \<open>
  \<open>parseCSR\<close>: the base64url text is turned into base64, padded to a multiple of four
  characters and wrapped in the PEM lines; \<open>certificationRequestFromPem\<close> is forge's
  parser, which throws (\<open>Inl\<close>) or returns the request.
\<close>

function pad4 :: "string \<Rightarrow> string" where
  "pad4 base64 = (if length base64 mod 4 \<noteq> 0 then pad4 (base64 @ ''='') else base64)"
  by pat_completeness auto
termination
proof (relation "measure (\<lambda>s. (4 - length s mod 4) mod 4)")
  show "wf (measure (\<lambda>s. (4 - length s mod 4) mod 4))"
    by (rule wf_measure)
next
  fix base64 :: string
  assume a: "length base64 mod 4 \<noteq> 0"
  let ?n = "length base64"
  have "?n mod 4 < 4" by simp
  with a consider "?n mod 4 = 1" | "?n mod 4 = 2" | "?n mod 4 = 3" by linarith
  then have "(4 - Suc ?n mod 4) mod 4 < (4 - ?n mod 4) mod 4"
    by cases (simp_all add: mod_Suc)
  then show "(base64 @ ''='', base64) \<in> measure (\<lambda>s. (4 - length s mod 4) mod 4)"
    by simp
qed

declare pad4.simps [simp del]

definition parseCSR :: "(string \<Rightarrow> string + csr) \<Rightarrow> string \<Rightarrow> string + csr" where
  "parseCSR certificationRequestFromPem base64url =
     (let base64 = map (\<lambda>c. if c = CHR ''_'' then CHR ''/'' else c)
                     (map (\<lambda>c. if c = CHR ''-'' then CHR ''+'' else c) base64url);
          pem = ''-----BEGIN CERTIFICATE REQUEST-----'' @ [CHR 0x0A]
                @ pad4 base64 @ [CHR 0x0A]
                @ ''-----END CERTIFICATE REQUEST-----'' @ [CHR 0x0A]
      in certificationRequestFromPem pem)"

text \<open>The body of \<open>checkCSR\<close> after the request is parsed.\<close>

definition check_parsed :: "(string \<Rightarrow> string) \<Rightarrow> csr \<Rightarrow> csr_result" where
  "check_parsed unicode_lower c =
     (let commonName = map_discard (subject_cb unicode_lower) None (csr_subject c);
          extensions = map_discard attribute_cb [] (csr_attributes c);
          sans = map_discard extension_cb [] extensions;
          names0 = (case commonName of None \<Rightarrow> []
                    | Some cn \<Rightarrow> if truthy commonName then names_put cn [] else []);
          names = map_discard (san_cb unicode_lower) names0 sans;
          nameList = for_in_keys names
      in if length nameList = 0 then Error ''No names in CSR'' else Names nameList)"

text \<open>\<open>checkCSR\<close>: \<open>Inl\<close> is the exception of the parser, which \<open>checkCSR\<close> lets through.\<close>

definition checkCSR ::
  "(string \<Rightarrow> string) \<Rightarrow> (string \<Rightarrow> string + csr) \<Rightarrow> string \<Rightarrow> string + csr_result" where
  "checkCSR unicode_lower certificationRequestFromPem base64url =
     (case parseCSR certificationRequestFromPem base64url of
        Inl e \<Rightarrow> Inl e
      | Inr c \<Rightarrow> Inr (check_parsed unicode_lower c))"

subsection \<open>Serial numbers\<close>

text \<open>
  \<open>nextSerialNumber\<close> is a JavaScript number, a double: adding one is exact below
  \<open>2^53\<close>, and \<open>2^53 + 1\<close> rounds back to \<open>2^53\<close>. The counter starts at 1, so these
  are all the values it takes.
\<close>

definition js_incr :: "nat \<Rightarrow> nat" where
  "js_incr n = (if n < 2 ^ 53 then n + 1 else n)"

definition digit_char :: "nat \<Rightarrow> char" where
  "digit_char d = ''0123456789abcdef'' ! d"

text \<open>\<open>Number.prototype.toString\<close> on a natural number, with radix 16 and radix 10.\<close>

fun toString16 :: "nat \<Rightarrow> string" where
  "toString16 n = (if n < 16 then [digit_char n] else toString16 (n div 16) @ [digit_char (n mod 16)])"

fun toString10 :: "nat \<Rightarrow> string" where
  "toString10 n = (if n < 10 then [digit_char n] else toString10 (n div 10) @ [digit_char (n mod 10)])"

declare toString16.simps [simp del] toString10.simps [simp del]

definition getNextSerialNumber :: "nat \<Rightarrow> string \<times> nat" where
  "getNextSerialNumber nextSerialNumber =
     (let ser = toString16 nextSerialNumber;
          ser' = (if length ser mod 2 = 1 then CHR ''0'' # ser else ser)
      in (ser', js_incr nextSerialNumber))"

text \<open>
  The module starts with \<open>nextSerialNumber = 1\<close> and only \<open>getNextSerialNumber\<close> assigns
  it: \<open>counter_after k\<close> is the counter after \<open>k\<close> calls, and \<open>nth_serial k\<close> the serial
  that call number \<open>k\<close> (counted from 0) of a process returns.
\<close>

definition counter_after :: "nat \<Rightarrow> nat" where
  "counter_after k = (js_incr ^^ k) 1"

definition nth_serial :: "nat \<Rightarrow> string" where
  "nth_serial k = fst (getNextSerialNumber (counter_after k))"

text \<open>The number a string of hexadecimal digits denotes, as \<open>parseInt(s, 16)\<close> reads it.\<close>

definition hex_value :: "string \<Rightarrow> nat" where
  "hex_value s = foldl (\<lambda>a c. 16 * a + digit_index ''0123456789abcdef'' c) 0 s"

definition is_hex_digit :: "char \<Rightarrow> bool" where
  "is_hex_digit c = (c \<in> set ''0123456789abcdef'')"

text \<open>A request that breaks a rule of each of the four categories at once.\<close>

definition rule_breaking_csr :: csr where
  "rule_breaking_csr =
     \<lparr>csr_subject =
        [\<lparr>sa_name = Some ''organizationName'', sa_value = ''Acme''\<rparr>,
         \<lparr>sa_name = Some ''commonName'', sa_value = ''example.com''\<rparr>],
      csr_attributes =
        [\<lparr>ca_name = Some ''challengePassword'', ca_extensions = []\<rparr>,
         \<lparr>ca_name = Some ''extensionRequest'', ca_extensions =
            [\<lparr>ex_name = Some ''keyUsage'', ex_altNames = []\<rparr>,
             \<lparr>ex_name = Some ''subjectAltName'', ex_altNames =
                [\<lparr>an_type = 7, an_value = ''10.0.0.1''\<rparr>,
                 \<lparr>an_type = 2, an_value = ''bad name!''\<rparr>,
                 \<lparr>an_type = 2, an_value = ''www.example.com''\<rparr>]\<rparr>]\<rparr>]\<rparr>"

section \<open>acme-server.js: entities, store and handlers\<close>

subsection \<open>Entities\<close>

type_synonym jwk = string

record Registration =
  reg_id :: string
  reg_status :: string
  reg_key :: jwk
  reg_contact :: "string list option"
  reg_agreement :: "string option"

record requirement =
  rq_type :: string
  rq_status :: string
  rq_url :: string

record Application =
  app_id :: string
  app_status :: string
  app_url :: string
  app_thumbprint :: string
  app_requirements :: "requirement list"
  app_notBefore :: "string option"
  app_notAfter :: "string option"
  app_certificate :: "string option"

text \<open>
  A challenge object of \<open>challengeObj\<close> (its \<open>type\<close> and \<open>status\<close>; its two methods are
  \<open>challenge_update\<close> and \<open>challenge_toJSON\<close> below), and an element of \<open>challenges\<close>, the
  object \<open>toJSON\<close> returned with the \<open>url\<close> that \<open>update\<close> adds.
\<close>

record challenge =
  ch_type :: string
  ch_status :: string

record challenge_json =
  cj_type :: string
  cj_status :: string
  cj_url :: "string option"

record dns_identifier =
  idf_type :: string
  idf_value :: string

text \<open>
  \<open>expires\<close> is a \<open>Date\<close>: its time value in milliseconds, or \<open>None\<close> for the invalid date
  (time value \<open>NaN\<close>) that the constructor builds when \<open>authzExpirySeconds\<close> is not set
  or takes the time out of the range of a \<open>Date\<close>.
\<close>

record Authorization =
  authz_id :: string
  authz_status :: string
  authz_url :: string
  authz_thumbprint :: string
  authz_identifier :: dns_identifier
  authz_scope :: "string option"
  authz_expires :: "int option"
  authz_challengeObj :: "challenge list"
  authz_challenges :: "challenge_json list"

record Certificate =
  cert_id :: string
  cert_url :: string
  cert_body :: string

datatype entity = Reg Registration | App Application | Authz Authorization | Cert Certificate

subsection \<open>Ids\<close>

text \<open>
  \<open>Buffer.toString('hex')\<close>: two hexadecimal digits for every byte. \<open>uuid.v4()\<close> formats
  sixteen bytes that way, in groups of 8, 4, 4, 4 and 12 digits with hyphens between.
\<close>

definition bytes_hex :: "nat list \<Rightarrow> string" where
  "bytes_hex bytes =
     concat (map (\<lambda>b. [digit_char (b mod 256 div 16), digit_char (b mod 16)]) bytes)"

definition uuid_text :: "nat list \<Rightarrow> string" where
  "uuid_text bytes =
     (let h = bytes_hex bytes
      in take 8 h @ ''-'' @ take 4 (drop 8 h) @ ''-'' @ take 4 (drop 12 h) @ ''-''
         @ take 4 (drop 16 h) @ ''-'' @ drop 20 h)"

subsection \<open>The store\<close>

text \<open>
  \<open>DB.store\<close> maps a type to an object literal that maps ids to objects. Each of the four
  types of the server is a list of objects in the order in which their ids were first
  stored (the order of \<open>for ... in\<close>, which the server runs over orders and
  authorizations; their ids are UUIDs, never array indices). Nothing is ever deleted, and
  the object literal of a type is made by the first \<open>put\<close> of that type: it is there
  exactly when the list is not empty. The ids that are stored are UUIDs and hexadecimal
  thumbprints: no \<open>put\<close> is an assignment to \<open>__proto__\<close>.
\<close>

record DB =
  db_reg :: "Registration list"
  db_app :: "Application list"
  db_authz :: "Authorization list"
  db_cert :: "Certificate list"

fun put_by :: "('a \<Rightarrow> string) \<Rightarrow> 'a \<Rightarrow> 'a list \<Rightarrow> 'a list" where
  "put_by ident obj [] = [obj]"
| "put_by ident obj (x # xs) =
     (if ident x = ident obj then obj # xs else x # put_by ident obj xs)"

definition db_put :: "entity \<Rightarrow> DB \<Rightarrow> DB" where
  "db_put obj db =
     (case obj of
        Reg r \<Rightarrow> db\<lparr>db_reg := put_by reg_id r (db_reg db)\<rparr>
      | App a \<Rightarrow> db\<lparr>db_app := put_by app_id a (db_app db)\<rparr>
      | Authz a \<Rightarrow> db\<lparr>db_authz := put_by authz_id a (db_authz db)\<rparr>
      | Cert c \<Rightarrow> db\<lparr>db_cert := put_by cert_id c (db_cert db)\<rparr>)"

text \<open>
  \<open>DB.get\<close> returns \<open>this.store[type][id]\<close>, and that finds more than the stored objects,
  because an object literal inherits from \<open>Object.prototype\<close>: for each name in
  \<open>function_members\<close> it finds the function of that name, and for \<open>__proto__\<close> it finds
  \<open>Object.prototype\<close> itself, whatever is stored. These objects are shared by the whole
  process, and \<open>finalizeOrder\<close> assigns \<open>status\<close> and \<open>certificate\<close> to whatever the lookup
  of its order finds: \<open>builtins\<close> holds the values so assigned, by the name of the object
  (\<open>__proto__\<close> for \<open>Object.prototype\<close>). A property of \<open>Object.prototype\<close> is inherited by
  every object that has none of its own of that name, the object literals of the store
  included: once \<open>Object.prototype\<close> has a \<open>status\<close>, \<open>store[type]['status']\<close> finds that
  string.
\<close>

definition function_members :: "string list" where
  "function_members =
     [''constructor'', ''__defineGetter__'', ''__defineSetter__'', ''hasOwnProperty'',
      ''__lookupGetter__'', ''__lookupSetter__'', ''isPrototypeOf'',
      ''propertyIsEnumerable'', ''toString'', ''valueOf'', ''toLocaleString'']"

record builtins =
  bi_status :: "string \<Rightarrow> string option"
  bi_certificate :: "string \<Rightarrow> string option"

text \<open>
  What a lookup finds when it is not a stored object: one of the shared objects, by its
  name, or the string that \<open>Object.prototype\<close> holds under the name looked up.
\<close>

datatype inherited = Member string | Primitive string

datatype 'a lookup = Absent | Stored 'a | Inherited inherited

text \<open>
  \<open>Object_prototype b i\<close> is what an object literal inherits under the name \<open>i\<close>
  (\<open>None\<close>: nothing, the lookup gives \<open>undefined\<close>).
\<close>

definition Object_prototype :: "builtins \<Rightarrow> string \<Rightarrow> inherited option" where
  "Object_prototype b i =
     (if i = ''__proto__'' \<or> i \<in> set function_members then Some (Member i)
      else if i = ''status'' then map_option Primitive (bi_status b ''__proto__'')
      else if i = ''certificate'' then map_option Primitive (bi_certificate b ''__proto__'')
      else None)"

text \<open>
  \<open>DB.get\<close>: \<open>null\<close> when the store has no object literal for the type, else the lookup
  in it: an own property, which is a stored object, or else what is inherited. The name
  \<open>__proto__\<close> is never an own property (an assignment to it does not make one).
\<close>

definition DB_get :: "builtins \<Rightarrow> ('a \<Rightarrow> string) \<Rightarrow> 'a list \<Rightarrow> string \<Rightarrow> 'a lookup" where
  "DB_get b ident bucket i =
     (if bucket = [] then Absent
      else (case (if i = ''__proto__'' then None else find (\<lambda>x. ident x = i) bucket) of
              Some x \<Rightarrow> Stored x
            | None \<Rightarrow>
                (case Object_prototype b i of
                   None \<Rightarrow> Absent
                 | Some m \<Rightarrow> Inherited m)))"

definition stored :: "'a lookup \<Rightarrow> 'a option" where
  "stored l = (case l of Stored x \<Rightarrow> Some x | Absent \<Rightarrow> None | Inherited m \<Rightarrow> None)"

text \<open>
  \<open>!x\<close> for what a lookup found: \<open>null\<close>, \<open>undefined\<close> and the empty string are falsy, every
  object is truthy.
\<close>

definition falsy :: "'a lookup \<Rightarrow> bool" where
  "falsy l = (case l of Absent \<Rightarrow> True | Stored x \<Rightarrow> False
              | Inherited m \<Rightarrow> (case m of Member n \<Rightarrow> False | Primitive s \<Rightarrow> s = []))"

text \<open>
  \<open>m.status\<close> for an inherited \<open>m\<close>: the object's own value if one was assigned, else the
  value \<open>Object.prototype\<close> holds; a string has no properties but the inherited ones
  (neither the functions nor strings have a \<open>status\<close> otherwise).
\<close>

definition member_status :: "builtins \<Rightarrow> inherited \<Rightarrow> string option" where
  "member_status b m =
     (case m of
        Member n \<Rightarrow> (case bi_status b n of
                       Some s \<Rightarrow> Some s | None \<Rightarrow> bi_status b ''__proto__'')
      | Primitive s \<Rightarrow> bi_status b ''__proto__'')"

definition authzFor :: "DB \<Rightarrow> string \<Rightarrow> string \<Rightarrow> Authorization option" where
  "authzFor db thumbprint name =
     find (\<lambda>authz. authz_thumbprint authz = thumbprint
                    \<and> idf_value (authz_identifier authz) = name) (db_authz db)"

subsection \<open>Application.markAsReady, Authorization.update, DB.updateAppsFor\<close>

definition markAsReady :: "Application \<Rightarrow> Application" where
  "markAsReady app =
     (if app_status app = ''pending''
      then (let unfulfilled = filter (\<lambda>req. rq_status req \<noteq> ''valid'') (app_requirements app)
            in if length unfulfilled = 0 then app\<lparr>app_status := ''ready''\<rparr> else app)
      else app)"

definition challenge_toJSON :: "challenge \<Rightarrow> challenge_json" where
  "challenge_toJSON x = \<lparr>cj_type = ch_type x, cj_status = ch_status x, cj_url = None\<rparr>"

text \<open>
  The \<open>update\<close> method of the one kind of challenge object the constructor builds
  (\<open>type: 'auto'\<close>): it takes no notice of its argument, sets the status and returns a
  resolved promise.
\<close>

definition challenge_update :: "challenge \<Rightarrow> 'p \<Rightarrow> challenge" where
  "challenge_update x arg = x\<lparr>ch_status := ''valid''\<rparr>"

text \<open>\<open>this.expires < now\<close>: a comparison with the invalid date is false.\<close>

definition date_less :: "int option \<Rightarrow> int \<Rightarrow> bool" where
  "date_less expires now = (case expires of None \<Rightarrow> False | Some e \<Rightarrow> e < now)"

text \<open>\<open>Authorization.update\<close>, with the value \<open>now\<close> of its \<open>new Date()\<close>.\<close>

definition Authorization_update :: "int \<Rightarrow> Authorization \<Rightarrow> Authorization" where
  "Authorization_update now this =
     (let challenges =
            map (\<lambda>(i, x). (challenge_toJSON x)
                             \<lparr>cj_url := Some (authz_url this @ ''/'' @ toString10 i)\<rparr>)
                (enumerate 0 (authz_challengeObj this));
          this1 = this\<lparr>authz_challenges := challenges\<rparr>;
          validChallenges = filter (\<lambda>x. cj_status x = ''valid'') challenges
      in if date_less (authz_expires this1) now then this1\<lparr>authz_status := ''invalid''\<rparr>
         else if length validChallenges > 0 then this1\<lparr>authz_status := ''valid''\<rparr>
         else this1)"

text \<open>
  \<open>DB.updateAppsFor\<close>: the loop rewrites the requirements of every application of the
  authorization's account, stores it and collects it in \<open>dependencies\<close>; then every
  collected application is marked.
\<close>

definition rewrite_requirement :: "Authorization \<Rightarrow> requirement \<Rightarrow> requirement" where
  "rewrite_requirement authz req =
     (if rq_type req = ''authorization'' \<and> rq_url req = authz_url authz
      then req\<lparr>rq_status := authz_status authz\<rparr> else req)"

definition updateAppsFor :: "Authorization \<Rightarrow> DB \<Rightarrow> DB" where
  "updateAppsFor authz db =
     (let is_dependency = (\<lambda>app. app_thumbprint app = authz_thumbprint authz);
          rewritten =
            map (\<lambda>app. if is_dependency app
                        then app\<lparr>app_requirements :=
                                   map (rewrite_requirement authz) (app_requirements app)\<rparr>
                        else app) (db_app db)
      in db\<lparr>db_app := map (\<lambda>app. if is_dependency app then markAsReady app else app) rewritten\<rparr>)"

subsection \<open>The server, the libraries and the state of the process\<close>

record server =
  srv_baseURL :: string
  srv_terms :: "string option"
  srv_authzExpirySeconds :: "int option"
  srv_scopedAuthorizations :: bool
  srv_autoChallenge :: bool

text \<open>
  The dates \<open>finalizeOrder\<close> hands to the CA: the order's own string, a \<open>new Date()\<close>, or
  a \<open>new Date()\<close> whose year was set to one more than the year of another \<open>new Date()\<close>.
\<close>

datatype date = DateString string | DateAt int | DateYearAfter int int

text \<open>
  What the server calls and does not define: \<open>uuid_v4 n\<close> are the sixteen bytes of the
  UUID that call number \<open>n\<close> of \<open>uuid.v4()\<close> in the process returns, and \<open>Date_now n\<close> is
  the time value of \<open>new Date()\<close> number \<open>n\<close>, a valid one (at most \<open>8.64e15\<close> in
  magnitude); \<open>unicode_lower\<close> is the runtime's case mapping (see \<open>toLowerCase\<close>);
  \<open>forge_parse\<close> is \<open>forge.pki.certificationRequestFromPem\<close>; \<open>forge_fill\<close> says whether
  \<open>setSubject\<close> and \<open>setExtensions\<close> return on the request's data, and \<open>forge_sign\<close> is the
  rest of \<open>issueCRT\<close> after the serial is set, with the CA's key and certificate: the DER
  text, or \<open>None\<close> when forge throws.
\<close>

record externals =
  uuid_v4 :: "nat \<Rightarrow> nat list"
  Date_now :: "nat \<Rightarrow> int"
  unicode_lower :: "string \<Rightarrow> string"
  forge_parse :: "string \<Rightarrow> string + csr"
  forge_fill :: "csr \<Rightarrow> bool"
  forge_sign :: "csr \<Rightarrow> string \<Rightarrow> date \<Rightarrow> date \<Rightarrow> string option"

record world =
  w_db :: DB
  w_builtins :: builtins
  w_nextSerialNumber :: nat
  w_uuids :: nat
  w_dates :: nat

definition new_uuid :: "externals \<Rightarrow> world \<Rightarrow> string \<times> world" where
  "new_uuid ext w = (uuid_text (uuid_v4 ext (w_uuids w)), w\<lparr>w_uuids := w_uuids w + 1\<rparr>)"

definition new_Date :: "externals \<Rightarrow> world \<Rightarrow> int \<times> world" where
  "new_Date ext w = (Date_now ext (w_dates w), w\<lparr>w_dates := w_dates w + 1\<rparr>)"

text \<open>
  The lookups of the handlers. An account is looked up under its thumbprint, the
  hexadecimal text of a digest, which is never one of the inherited names (lemma
  \<open>thumbprint_not_inherited\<close> below): such a lookup finds a stored registration or
  nothing. The other lookups are made with the id of the request's URL.
\<close>

definition get_reg :: "world \<Rightarrow> nat list \<Rightarrow> Registration option" where
  "get_reg w digest =
     stored (DB_get (w_builtins w) reg_id (db_reg (w_db w)) (bytes_hex digest))"

definition get_app :: "world \<Rightarrow> string \<Rightarrow> Application lookup" where
  "get_app w i = DB_get (w_builtins w) app_id (db_app (w_db w)) i"

definition get_authz :: "world \<Rightarrow> string \<Rightarrow> Authorization lookup" where
  "get_authz w i = DB_get (w_builtins w) authz_id (db_authz (w_db w)) i"

definition get_cert :: "world \<Rightarrow> string \<Rightarrow> Certificate lookup" where
  "get_cert w i = DB_get (w_builtins w) cert_id (db_cert (w_db w)) i"

text \<open>
  \<open>DB.get\<close> returns the stored object itself. An assignment to a field of an object that is
  in the store therefore changes the store; \<open>assign\<close> writes the object as it is after the
  assignment back under its id. \<open>this.db.put(obj)\<close> is the same update. An assignment to
  a property of one of the shared objects changes \<open>builtins\<close>.
\<close>

definition assign :: "entity \<Rightarrow> world \<Rightarrow> world" where
  "assign obj w = w\<lparr>w_db := db_put obj (w_db w)\<rparr>"

definition assign_status :: "string \<Rightarrow> string \<Rightarrow> world \<Rightarrow> world" where
  "assign_status n v w =
     w\<lparr>w_builtins := (w_builtins w)\<lparr>bi_status := (bi_status (w_builtins w))(n := Some v)\<rparr>\<rparr>"

definition assign_certificate :: "string \<Rightarrow> string \<Rightarrow> world \<Rightarrow> world" where
  "assign_certificate n v w =
     w\<lparr>w_builtins :=
          (w_builtins w)\<lparr>bi_certificate := (bi_certificate (w_builtins w))(n := Some v)\<rparr>\<rparr>"

definition makeURL :: "server \<Rightarrow> string \<Rightarrow> string \<Rightarrow> string" where
  "makeURL srv type ident = srv_baseURL srv @ ''/'' @ type @ ''/'' @ ident"

text \<open>
  \<open>Date.prototype.setTime\<close> keeps a time value of magnitude at most \<open>8.64e15\<close> and makes
  the date invalid beyond. The constructor adds \<open>authzExpirySeconds * 1000\<close>, for a whole
  number of seconds, to a valid time: the doubles give the exact sum whenever it is in that
  range (it is below \<open>2^53\<close>), and a value out of the range whenever the exact sum is.
\<close>

definition TimeClip :: "int \<Rightarrow> int option" where
  "TimeClip t = (if \<bar>t\<bar> \<le> 8640000000000000 then Some t else None)"

definition new_Authorization ::
  "server \<Rightarrow> externals \<Rightarrow> string \<Rightarrow> string \<Rightarrow> string option \<Rightarrow> world
     \<Rightarrow> Authorization \<times> world" where
  "new_Authorization srv ext thumbprint name scope w =
     (let (ident, w1) = new_uuid ext w;
          (t0, w2) = new_Date ext w1;
          expires = (case srv_authzExpirySeconds srv of
                       None \<Rightarrow> None
                     | Some seconds \<Rightarrow> TimeClip (t0 + seconds * 1000));
          challengeObj = (if srv_autoChallenge srv
                          then [\<lparr>ch_type = ''auto'', ch_status = ''pending''\<rparr>] else []);
          this = \<lparr>authz_id = ident, authz_status = ''pending'',
                  authz_url = makeURL srv ''authz'' ident, authz_thumbprint = thumbprint,
                  authz_identifier = \<lparr>idf_type = ''dns'', idf_value = name\<rparr>,
                  authz_scope = scope, authz_expires = expires,
                  authz_challengeObj = challengeObj, authz_challenges = []\<rparr>;
          (now, w3) = new_Date ext w2
      in (Authorization_update now this, w3))"

definition new_Certificate :: "server \<Rightarrow> externals \<Rightarrow> world \<Rightarrow> (string \<times> string) \<times> world" where
  "new_Certificate srv ext w =
     (let (ident, w1) = new_uuid ext w in ((ident, makeURL srv ''cert'' ident), w1))"

text \<open>\<open>pki.issueCRT\<close>, from the counter to the DER text (if forge returns) and the counter.\<close>

definition issueCRT :: "externals \<Rightarrow> string \<Rightarrow> date \<Rightarrow> date \<Rightarrow> nat \<Rightarrow> string option \<times> nat" where
  "issueCRT ext csr_base64url notBefore notAfter nextSerialNumber =
     (case parseCSR (forge_parse ext) csr_base64url of
        Inl e \<Rightarrow> (None, nextSerialNumber)
      | Inr c \<Rightarrow>
          if \<not> forge_fill ext c then (None, nextSerialNumber)
          else (let (serialNumber, n) = getNextSerialNumber nextSerialNumber
                in (forge_sign ext c serialNumber notBefore notAfter, n)))"

subsection \<open>Requests and responses\<close>

text \<open>
  The parsed payload: the members the handlers read, and the others, as pairs of a name
  and the JSON text of a value.
\<close>

record payload =
  p_contact :: "string list option"
  p_agreement :: "string option"
  p_csr :: "string option"
  p_others :: "(string \<times> string) list"

text \<open>
  What a handler reads of \<open>req\<close> and \<open>res\<close>: the account key's thumbprint, the route's
  \<open>id\<close>, the value of \<open>parseInt(req.params.index)\<close> (\<open>None\<close> for \<open>NaN\<close>), the parsed payload
  \<open>req.payload\<close>, and the property \<open>payload\<close> of the response object (\<open>None\<close>:
  \<open>undefined\<close>).

  Modelled from the spec: the transport (\<open>lib/transport-server.js\<close>, which is not among
  the sources) attaches \<open>req.accountKeyThumbprint\<close>; by the spec it is the thumbprint of
  the account key in hexadecimal. The request holds the bytes of the digest, and
  \<open>accountKeyThumbprint\<close> is their hexadecimal text.
\<close>

record request =
  req_accountKeyDigest :: "nat list"
  req_id :: string
  req_index :: "int option"
  req_payload :: payload
  res_payload :: "payload option"

definition accountKeyThumbprint :: "request \<Rightarrow> string" where
  "accountKeyThumbprint req = bytes_hex (req_accountKeyDigest req)"

record reg_json =
  rj_key :: "jwk option"
  rj_status :: "string option"
  rj_contact :: "string list option"
  rj_agreement :: "string option"

record order_json =
  oj_status :: "string option"
  oj_notBefore :: "string option"
  oj_notAfter :: "string option"
  oj_requirements :: "requirement list"
  oj_authorizations :: "string list"
  oj_certificate :: "string option"
  oj_finalize :: "string option"

text \<open>The body \<open>getAuthz\<close> sends; a member that is \<open>undefined\<close> is \<open>None\<close>.\<close>

record authz_json =
  aj_status :: "string option"
  aj_identifier :: "dns_identifier option"
  aj_challenges :: "(string \<times> string \<times> string) list"

datatype body =
    Problem string string "string option"
  | RegBody reg_json
  | OrderBody order_json
  | ChallengeBody challenge_json
  | AuthzBody authz_json

record response =
  rs_status :: nat
  rs_location :: "string option"
  rs_link_terms :: "string option"
  rs_body :: "body option"

text \<open>
  What becomes of a request: a response was sent; or the handler set a status and
  returned without sending anything; or an exception left the handler.
\<close>

datatype outcome = Responded response | NeverResponds nat | Throws string

definition reply :: "nat \<Rightarrow> body option \<Rightarrow> response" where
  "reply code b = \<lparr>rs_status = code, rs_location = None, rs_link_terms = None, rs_body = b\<rparr>"

definition problem :: "string \<Rightarrow> string \<Rightarrow> string option \<Rightarrow> body" where
  "problem type title description =
     Problem (''urn:ietf:params:acme:error:'' @ type) title description"

text \<open>\<open>select\<close> keeps a field only when its value is truthy.\<close>

definition select :: "string option \<Rightarrow> string option" where
  "select v = (if truthy v then v else None)"

definition Registration_marshal :: "Registration \<Rightarrow> reg_json" where
  "Registration_marshal this =
     \<lparr>rj_key = Some (reg_key this), rj_status = select (Some (reg_status this)),
      rj_contact = reg_contact this, rj_agreement = select (reg_agreement this)\<rparr>"

text \<open>
  \<open>Application.marshal\<close>. An order that has no \<open>certificate\<close> of its own inherits the one
  of \<open>Object.prototype\<close>, if \<open>finalizeOrder\<close> has assigned one there.
\<close>

definition Application_marshal :: "builtins \<Rightarrow> Application \<Rightarrow> order_json" where
  "Application_marshal b this =
     \<lparr>oj_status = select (Some (app_status this)),
      oj_notBefore = select (app_notBefore this),
      oj_notAfter = select (app_notAfter this),
      oj_requirements = app_requirements this,
      oj_authorizations = map rq_url (app_requirements this),
      oj_certificate = select (case app_certificate this of
                                 Some c \<Rightarrow> Some c
                               | None \<Rightarrow> bi_certificate b ''__proto__''),
      oj_finalize = select (Some (app_url this @ ''/finalize''))\<rparr>"

text \<open>\<open>index in array\<close> and \<open>array[index]\<close> for an integer \<open>index\<close>.\<close>

definition in_array :: "int \<Rightarrow> 'a list \<Rightarrow> bool" where
  "in_array index xs = (0 \<le> index \<and> index < int (length xs))"

definition array_get :: "'a list \<Rightarrow> int \<Rightarrow> 'a option" where
  "array_get xs index = (if in_array index xs then Some (xs ! nat index) else None)"

subsection \<open>Handlers\<close>

definition unknown_account :: outcome where
  "unknown_account =
     Responded (reply 401 (Some (problem ''unauthorized'' ''Unknown account key'' None)))"

definition unauthorized_account :: outcome where
  "unauthorized_account =
     Responded (reply 401 (Some (problem ''unauthorized'' ''Unauthorized account key'' None)))"

text \<open>
  \<open>getAuthz\<close> (POST /authz/:id). Reading \<open>authz.status\<close> of \<open>null\<close> or \<open>undefined\<close> throws a
  \<open>TypeError\<close>. Of an inherited object or string the handler reads \<open>status\<close>,
  \<open>identifier\<close> and \<open>url\<close> like those of an authorization: the last two are \<open>undefined\<close>,
  and \<open>undefined + '/0'\<close> is the string \<open>undefined/0\<close>.
\<close>

definition getAuthz :: "request \<Rightarrow> world \<Rightarrow> outcome \<times> world" where
  "getAuthz req w =
     (case get_reg w (req_accountKeyDigest req) of
        None \<Rightarrow> (unknown_account, w)
      | Some reg \<Rightarrow>
          (case get_authz w (req_id req) of
             Absent \<Rightarrow> (Throws ''TypeError'', w)
           | Stored authz \<Rightarrow>
               (Responded (reply 201 (Some (AuthzBody
                  \<lparr>aj_status = Some (authz_status authz),
                   aj_identifier = Some (authz_identifier authz),
                   aj_challenges = [(''http-01'', ''token'', authz_url authz @ ''/0'')]\<rparr>))),
                w)
           | Inherited m \<Rightarrow>
               (Responded (reply 201 (Some (AuthzBody
                  \<lparr>aj_status = member_status (w_builtins w) m,
                   aj_identifier = None,
                   aj_challenges = [(''http-01'', ''token'', ''undefined'' @ ''/0'')]\<rparr>))),
                w)))"

text \<open>
  The test \<open>!authz || isNaN(index) || !(index in authz.challenges)\<close> of \<open>fetchChallenge\<close>
  and \<open>updateAuthz\<close>, for a lookup that found no stored authorization: an inherited object
  or non-empty string has no \<open>challenges\<close>, and \<open>in\<close> throws on \<open>undefined\<close>.
\<close>

definition not_an_authorization :: "Authorization lookup \<Rightarrow> int option \<Rightarrow> outcome" where
  "not_an_authorization l index =
     (if falsy l then Responded (reply 404 None)
      else if index = None then Responded (reply 404 None)
      else Throws ''TypeError'')"

text \<open>
  \<open>fetchChallenge\<close> (GET /authz/:id/:index). After \<open>update\<close> and \<open>put\<close> the handler
  assigns \<open>authz.challenges[0].status\<close>, which throws when there is no such element, and
  sends \<open>authz.challenges[index]\<close>, which is \<open>undefined\<close> (no body) when there is none.
\<close>

definition fetchChallenge :: "externals \<Rightarrow> request \<Rightarrow> world \<Rightarrow> outcome \<times> world" where
  "fetchChallenge ext req w =
     (case get_authz w (req_id req) of
        Absent \<Rightarrow> (not_an_authorization Absent (req_index req), w)
      | Inherited m \<Rightarrow> (not_an_authorization (Inherited m) (req_index req), w)
      | Stored authz \<Rightarrow>
          (case req_index req of
             None \<Rightarrow> (Responded (reply 404 None), w)
           | Some index \<Rightarrow>
               if \<not> in_array index (authz_challenges authz)
               then (Responded (reply 404 None), w)
               else
                 (let (now, w1) = new_Date ext w;
                      authz1 = Authorization_update now authz;
                      w2 = assign (Authz authz1) w1
                  in case authz_challenges authz1 of
                       [] \<Rightarrow> (Throws ''TypeError'', w2)
                     | c # cs \<Rightarrow>
                         (let authz2 = authz1\<lparr>authz_challenges := c\<lparr>cj_status := ''valid''\<rparr> # cs\<rparr>;
                              w3 = assign (Authz authz2) w2
                          in (Responded (reply 200
                                (map_option ChallengeBody
                                   (array_get (authz_challenges authz2) index))),
                              w3)))))"

text \<open>
  \<open>updateReg\<close> (POST /reg/:id); \<open>updateReg_done\<close> is its end, from \<open>this.db.put(reg)\<close>
  on.
\<close>

definition updateReg_done :: "server \<Rightarrow> Registration \<Rightarrow> world \<Rightarrow> outcome \<times> world" where
  "updateReg_done srv reg w =
     (Responded ((reply 200 (Some (RegBody (Registration_marshal reg))))
                   \<lparr>rs_link_terms := select (srv_terms srv)\<rparr>),
      assign (Reg reg) w)"

definition updateReg :: "server \<Rightarrow> request \<Rightarrow> world \<Rightarrow> outcome \<times> world" where
  "updateReg srv req w =
     (let thumbprint = accountKeyThumbprint req
      in case get_reg w (req_accountKeyDigest req) of
           None \<Rightarrow> (unknown_account, w)
         | Some reg \<Rightarrow>
             if req_id req \<noteq> thumbprint then (unauthorized_account, w)
             else
               (let reg1 = (case p_contact (req_payload req) of
                              None \<Rightarrow> reg
                            | Some contact \<Rightarrow> reg\<lparr>reg_contact := Some contact\<rparr>);
                    w1 = assign (Reg reg1) w;
                    agreement = p_agreement (req_payload req)
                in if truthy agreement
                   then (if agreement \<noteq> srv_terms srv
                         then (Responded (reply 400
                                 (Some (problem ''malformed'' ''Incorrect agreement URL'' None))),
                               w1)
                         else updateReg_done srv (reg1\<lparr>reg_agreement := agreement\<rparr>) w1)
                   else updateReg_done srv reg1 w1))"

text \<open>
  \<open>finalizeOrder\<close> (POST /app/:id/finalize). \<open>finalize_csr\<close> is the \<open>try\<close> block: \<open>Inl\<close>
  is the message of the exception that the \<open>catch\<close> answers with 400 (the only error
  \<open>checkCSR\<close> returns is that of an empty list of names), \<open>Inr\<close> the names and the request
  text.
\<close>

definition finalize_csr :: "externals \<Rightarrow> payload \<Rightarrow> string + (string list \<times> string)" where
  "finalize_csr ext p =
     (case p_csr p of
        None \<Rightarrow> Inl ''CSR must be provided''
      | Some c \<Rightarrow>
          if c = [] then Inl ''CSR must be provided''
          else (case checkCSR (unicode_lower ext) (forge_parse ext) c of
                  Inl e \<Rightarrow> Inl e
                | Inr (Error e) \<Rightarrow> Inl e
                | Inr (Names names) \<Rightarrow> Inr (names, c)))"

definition ensure_authz ::
  "server \<Rightarrow> externals \<Rightarrow> string \<Rightarrow> string option \<Rightarrow> world \<Rightarrow> string \<Rightarrow> world" where
  "ensure_authz srv ext thumbprint scope w name =
     (case authzFor (w_db w) thumbprint name of
        Some authz \<Rightarrow> assign (Authz authz) w
      | None \<Rightarrow>
          (let (authz, w1) = new_Authorization srv ext thumbprint name scope w
           in assign (Authz authz) w1))"

text \<open>
  \<open>order.notBefore || new Date()\<close> and the like for \<open>notAfter\<close>, from the value of the
  order's field (\<open>None\<close>: \<open>undefined\<close>).
\<close>

definition order_notBefore :: "externals \<Rightarrow> string option \<Rightarrow> world \<Rightarrow> date \<times> world" where
  "order_notBefore ext notBefore w =
     (case select notBefore of
        Some s \<Rightarrow> (DateString s, w)
      | None \<Rightarrow> (let (t, w1) = new_Date ext w in (DateAt t, w1)))"

definition order_notAfter :: "externals \<Rightarrow> string option \<Rightarrow> world \<Rightarrow> date \<times> world" where
  "order_notAfter ext notAfter w =
     (case select notAfter of
        Some s \<Rightarrow> (DateString s, w)
      | None \<Rightarrow>
          (let (t, w1) = new_Date ext w;
               (y, w2) = new_Date ext w1
           in (DateYearAfter t y, w2)))"

text \<open>
  \<open>finalizeOrder\<close> when the lookup of the order found one of the shared objects, of name
  \<open>n\<close>: the assignments to \<open>order.status\<close> and \<open>order.certificate\<close> are made to that
  object, its \<open>notBefore\<close> and \<open>notAfter\<close> are \<open>undefined\<close>, and at the end, after
  \<open>this.db.put(cert)\<close>, the call \<open>order.marshal()\<close> throws: the object has no \<open>marshal\<close>.
  The libraries are taken to work on as before when a shared object has got a \<open>status\<close>.
\<close>

definition finalize_member ::
  "server \<Rightarrow> externals \<Rightarrow> request \<Rightarrow> string \<Rightarrow> world \<Rightarrow> outcome \<times> world" where
  "finalize_member srv ext req member w =
     (let thumbprint = accountKeyThumbprint req;
          w1 = assign_status member ''processing'' w;
          ((cert_ident, cert_link), w2) = new_Certificate srv ext w1;
          scope = (if srv_scopedAuthorizations srv then Some cert_link else None)
      in case finalize_csr ext (req_payload req) of
           Inl message \<Rightarrow>
             (Responded (reply 400 (Some (problem ''malformed''
                 ''Invalid new certificate request'' (Some message)))),
              assign_status member ''ready'' w2)
         | Inr (names, csr_text) \<Rightarrow>
             (let (notBefore, w3) = order_notBefore ext None w2;
                  (notAfter, w4) = order_notAfter ext None w3;
                  w5 = foldl (ensure_authz srv ext thumbprint scope) w4 names;
                  (der, n) = issueCRT ext csr_text notBefore notAfter
                               (w_nextSerialNumber w5);
                  w6 = w5\<lparr>w_nextSerialNumber := n\<rparr>
              in case der of
                   None \<Rightarrow> (Throws ''Error'', w6)
                 | Some cert_der \<Rightarrow>
                     (let w7 = assign_certificate member cert_link
                                 (assign_status member ''valid'' w6);
                          w8 = assign (Cert \<lparr>cert_id = cert_ident,
                                             cert_url = cert_link,
                                             cert_body = cert_der\<rparr>) w7
                      in (Throws ''TypeError'', w8))))"

text \<open>
  \<open>finalizeOrder\<close>. An exception of the CA leaves the handler (\<open>Throws ''Error''\<close>). The
  file is in strict mode: the assignment \<open>order.status = ...\<close> to a string that the lookup
  found throws a \<open>TypeError\<close>.
\<close>

definition finalizeOrder :: "server \<Rightarrow> externals \<Rightarrow> request \<Rightarrow> world \<Rightarrow> outcome \<times> world" where
  "finalizeOrder srv ext req w =
     (let thumbprint = accountKeyThumbprint req
      in case get_reg w (req_accountKeyDigest req) of
           None \<Rightarrow> (unknown_account, w)
         | Some reg \<Rightarrow>
             (case get_app w (req_id req) of
                Absent \<Rightarrow> (NeverResponds 404, w)
              | Inherited m \<Rightarrow>
                  (case m of
                     Primitive s \<Rightarrow>
                       if s = [] then (NeverResponds 404, w) else (Throws ''TypeError'', w)
                   | Member member \<Rightarrow> finalize_member srv ext req member w)
              | Stored order \<Rightarrow>
                  (let order1 = order\<lparr>app_status := ''processing''\<rparr>;
                       w1 = assign (App order1) w;
                       ((cert_ident, cert_link), w2) = new_Certificate srv ext w1;
                       scope = (if srv_scopedAuthorizations srv then Some cert_link else None)
                   in case finalize_csr ext (req_payload req) of
                        Inl message \<Rightarrow>
                          (Responded (reply 400 (Some (problem ''malformed''
                              ''Invalid new certificate request'' (Some message)))),
                           assign (App (order1\<lparr>app_status := ''ready''\<rparr>)) w2)
                      | Inr (names, csr_text) \<Rightarrow>
                          (let (notBefore, w3) = order_notBefore ext (app_notBefore order1) w2;
                               (notAfter, w4) = order_notAfter ext (app_notAfter order1) w3;
                               w5 = foldl (ensure_authz srv ext thumbprint scope) w4 names;
                               (der, n) = issueCRT ext csr_text notBefore notAfter
                                            (w_nextSerialNumber w5);
                               w6 = w5\<lparr>w_nextSerialNumber := n\<rparr>
                           in case der of
                                None \<Rightarrow> (Throws ''Error'', w6)
                              | Some cert_der \<Rightarrow>
                                  (let order2 = order1\<lparr>app_status := ''valid'',
                                                        app_certificate := Some cert_link\<rparr>;
                                       w7 = assign (App order2) w6;
                                       w8 = assign (Cert \<lparr>cert_id = cert_ident,
                                                          cert_url = cert_link,
                                                          cert_body = cert_der\<rparr>) w7
                                   in (Responded ((reply 201
                                          (Some (OrderBody
                                             (Application_marshal (w_builtins w8) order2))))
                                          \<lparr>rs_location := Some (app_url order2)\<rparr>),
                                       w8))))))"

text \<open>
  \<open>updateAuthz\<close> (POST /authz/:id/:index) answers from a chain of promise callbacks. It
  is given as the list of its steps in the order in which they run, each with the state
  after it: the call of the challenge object's \<open>update\<close> with its argument, the
  authorization's \<open>update\<close>, \<open>updateAppsFor\<close>, and the response. The argument of the
  challenge's \<open>update\<close> is \<open>res.payload\<close>.
\<close>

datatype event =
    Challenge_update int "payload option"
  | Authorization_updated
  | Apps_updated
  | Response outcome

definition updateAuthz :: "externals \<Rightarrow> request \<Rightarrow> world \<Rightarrow> (event \<times> world) list" where
  "updateAuthz ext req w =
     (case get_authz w (req_id req) of
        Absent \<Rightarrow> [(Response (not_an_authorization Absent (req_index req)), w)]
      | Inherited m \<Rightarrow> [(Response (not_an_authorization (Inherited m) (req_index req)), w)]
      | Stored authz \<Rightarrow>
          (case req_index req of
             None \<Rightarrow> [(Response (Responded (reply 404 None)), w)]
           | Some index \<Rightarrow>
               if \<not> in_array index (authz_challenges authz)
               then [(Response (Responded (reply 404 None)), w)]
               else
                 (case get_reg w (req_accountKeyDigest req) of
                    None \<Rightarrow> [(Response unknown_account, w)]
                  | Some reg \<Rightarrow>
                      if reg_id reg \<noteq> authz_thumbprint authz
                      then [(Response unauthorized_account, w)]
                      else
                        (case array_get (authz_challengeObj authz) index of
                           None \<Rightarrow> [(Response (Throws ''TypeError''), w)]
                         | Some x \<Rightarrow>
                             (let authz1 = authz\<lparr>authz_challengeObj :=
                                     (authz_challengeObj authz)
                                       [nat index := challenge_update x (res_payload req)]\<rparr>;
                                  w1 = assign (Authz authz1) w;
                                  (now, w2) = new_Date ext w1;
                                  authz2 = Authorization_update now authz1;
                                  w3 = assign (Authz authz2) w2;
                                  w4 = w3\<lparr>w_db := updateAppsFor authz2 (w_db w3)\<rparr>
                              in [(Challenge_update index (res_payload req), w1),
                                  (Authorization_updated, w3),
                                  (Apps_updated, w4),
                                  (Response (Responded (reply 200
                                     (map_option ChallengeBody
                                        (array_get (authz_challenges authz2) index)))),
                                   w4)])))))"

section \<open>jose.js: verification of a signed request\<close>









section \<open>A server with two accounts, an order and an authorization\<close>

text \<open>
  The inputs at which the properties below are evaluated: a server with the automatic
  challenge, libraries that parse every text to the request \<open>example_csr\<close> and sign every
  certificate, and a store in which account \<open>aa11\<close> has a pending order for
  \<open>example.com\<close> with its pending authorization, and account \<open>bb22\<close> has nothing. No
  property has been assigned to a shared object. The bytes of UUID number \<open>n\<close> are fifteen
  zeros and \<open>n\<close>.
\<close>

definition example_csr :: csr where
  "example_csr =
     \<lparr>csr_subject = [\<lparr>sa_name = Some ''commonName'', sa_value = ''example.com''\<rparr>],
      csr_attributes = []\<rparr>"

definition srv0 :: server where
  "srv0 = \<lparr>srv_baseURL = ''http://localhost'', srv_terms = Some ''https://example.com/terms'',
            srv_authzExpirySeconds = Some 2592000, srv_scopedAuthorizations = False,
            srv_autoChallenge = True\<rparr>"

definition ext0 :: externals where
  "ext0 = \<lparr>uuid_v4 = (\<lambda>n. [0, 0, 0, 0, 0, 0, 0, 0, 0, 0, 0, 0, 0, 0, 0, n]),
            Date_now = (\<lambda>n. 1000 + int n),
            unicode_lower = (\<lambda>s. s),
            forge_parse = (\<lambda>pem. Inr example_csr),
            forge_fill = (\<lambda>c. True),
            forge_sign = (\<lambda>c serialNumber notBefore notAfter. Some (''DER-'' @ serialNumber))\<rparr>"

text \<open>
  The same libraries for a server that was made without a CA key and certificate (the
  constructor takes both from its options and does not require them): forge throws when
  \<open>issueCRT\<close> reads them.
\<close>

definition ext_no_ca :: externals where
  "ext_no_ca = ext0\<lparr>forge_sign := (\<lambda>c serialNumber notBefore notAfter. None)\<rparr>"

definition reg_a :: Registration where
  "reg_a = \<lparr>reg_id = ''aa11'', reg_status = ''good'', reg_key = ''key-a'',
             reg_contact = Some [''mailto:a@example.com''], reg_agreement = None\<rparr>"

definition reg_b :: Registration where
  "reg_b = \<lparr>reg_id = ''bb22'', reg_status = ''good'', reg_key = ''key-b'',
             reg_contact = None, reg_agreement = None\<rparr>"

definition authz0 :: Authorization where
  "authz0 = \<lparr>authz_id = ''z1'', authz_status = ''pending'',
              authz_url = ''http://localhost/authz/z1'', authz_thumbprint = ''aa11'',
              authz_identifier = \<lparr>idf_type = ''dns'', idf_value = ''example.com''\<rparr>,
              authz_scope = None, authz_expires = Some 5000,
              authz_challengeObj = [\<lparr>ch_type = ''auto'', ch_status = ''pending''\<rparr>],
              authz_challenges = [\<lparr>cj_type = ''auto'', cj_status = ''pending'',
                                    cj_url = Some ''http://localhost/authz/z1/0''\<rparr>]\<rparr>"

definition app0 :: Application where
  "app0 = \<lparr>app_id = ''o1'', app_status = ''pending'', app_url = ''http://localhost/app/o1'',
            app_thumbprint = ''aa11'',
            app_requirements = [\<lparr>rq_type = ''authorization'', rq_status = ''pending'',
                                  rq_url = ''http://localhost/authz/z1''\<rparr>],
            app_notBefore = None, app_notAfter = None, app_certificate = None\<rparr>"

definition world0 :: world where
  "world0 = \<lparr>w_db = \<lparr>db_reg = [reg_a, reg_b], db_app = [app0], db_authz = [authz0],
                       db_cert = []\<rparr>,
              w_builtins = \<lparr>bi_status = (\<lambda>n. None), bi_certificate = (\<lambda>n. None)\<rparr>,
              w_nextSerialNumber = 1, w_uuids = 0, w_dates = 0\<rparr>"

definition no_payload :: payload where
  "no_payload = \<lparr>p_contact = None, p_agreement = None, p_csr = None, p_others = []\<rparr>"

text \<open>
  The same order once it is ready, its requirement valid, and the authorization as
  \<open>update\<close> leaves it after its expiry: invalid.
\<close>

definition ready_app :: Application where
  "ready_app = app0\<lparr>app_status := ''ready'',
                     app_requirements := [\<lparr>rq_type = ''authorization'', rq_status = ''valid'',
                                            rq_url = ''http://localhost/authz/z1''\<rparr>]\<rparr>"

definition expired_authz :: Authorization where
  "expired_authz = authz0\<lparr>authz_status := ''invalid''\<rparr>"

definition ready_db :: DB where
  "ready_db = \<lparr>db_reg = [reg_a, reg_b], db_app = [ready_app], db_authz = [expired_authz],
                db_cert = []\<rparr>"





text \<open>
  The requests. The digests \<open>aa 11\<close> and \<open>bb 22\<close> are those of the keys of the two
  accounts.
\<close>

definition digest_a :: "nat list" where
  "digest_a = [170, 17]"

definition digest_b :: "nat list" where
  "digest_b = [187, 34]"

definition req_missing :: request where
  "req_missing =
     \<lparr>req_accountKeyDigest = digest_a, req_id = ''no-such-id'', req_index = None,
      req_payload = no_payload, res_payload = None\<rparr>"

definition req_constructor :: request where
  "req_constructor =
     \<lparr>req_accountKeyDigest = digest_a, req_id = ''constructor'', req_index = None,
      req_payload = no_payload, res_payload = None\<rparr>"

definition req_fetch0 :: request where
  "req_fetch0 =
     \<lparr>req_accountKeyDigest = [], req_id = ''z1'', req_index = Some 0,
      req_payload = no_payload, res_payload = None\<rparr>"

definition req_wrong_agreement :: request where
  "req_wrong_agreement =
     \<lparr>req_accountKeyDigest = digest_a, req_id = ''aa11'', req_index = None,
      req_payload = \<lparr>p_contact = Some [''mailto:new@example.org''],
                      p_agreement = Some ''https://wrong'', p_csr = None, p_others = []\<rparr>,
      res_payload = None\<rparr>"

definition req_challenge :: request where
  "req_challenge =
     \<lparr>req_accountKeyDigest = digest_a, req_id = ''z1'', req_index = Some 0,
      req_payload = \<lparr>p_contact = None, p_agreement = None, p_csr = None,
                      p_others = [(''keyAuthorization'', ''token.thumbprint'')]\<rparr>,
      res_payload = None\<rparr>"

definition req_b_finalize :: request where
  "req_b_finalize =
     \<lparr>req_accountKeyDigest = digest_b, req_id = ''o1'', req_index = None,
      req_payload = \<lparr>p_contact = None, p_agreement = None, p_csr = Some ''MIIC'',
                      p_others = []\<rparr>,
      res_payload = None\<rparr>"

section \<open>Properties of pki.js\<close>

lemmas checkCSR_defs =
  checkCSR_def parseCSR_def check_parsed_def map_discard_def subject_cb_def attribute_cb_def extension_cb_def san_cb_def
  truthy_def toLowerCase_def is_ascii_def lower_char_def DNS_RE_def inner_label_def last_label_def
  is_az_def is_az09_def is_az09_hyphen_def names_put_def for_in_keys_def is_array_index_def
  dec_value_def digit_index_def

text \<open>
  The callbacks' return values are dropped, so the only error \<open>checkCSR\<close> ever returns is
  the one of its own body.
\<close>

lemma checkCSR_only_error:
  "check_parsed lower c = Error m \<Longrightarrow> m = ''No names in CSR''"
  by (simp add: check_parsed_def Let_def split: if_splits)

text \<open>
  C1. The claim: a request that parses and breaks a rule (a subject attribute other than
  commonName, an attribute other than extensionRequest, an extension other than
  subjectAltName, an alternative name that is not a dNSName or not a DNS name) makes
  \<open>checkCSR\<close> return the error of the first broken rule. The code returns those errors from
  the callbacks of \<open>map\<close> only: on a request that breaks a rule of every category,
  \<open>checkCSR\<close> returns the names it found and no error (whatever text the request was
  parsed from: the parser here returns that request; and whatever the runtime's case
  mapping outside ASCII: the request is ASCII).
\<close>

theorem checkCSR_accepts_rule_breaking_csr:
  "checkCSR lower (\<lambda>pem. Inr rule_breaking_csr) ''MIIC''
     = Inr (Names [''example.com'', ''www.example.com''])"
  by (simp add: rule_breaking_csr_def checkCSR_defs)

lemma toString16_small: "n < 16 \<Longrightarrow> toString16 n = [digit_char n]"
  by (simp add: toString16.simps)

lemma toString16_big:
  "\<not> n < 16 \<Longrightarrow> toString16 n = toString16 (n div 16) @ [digit_char (n mod 16)]"
  by (subst toString16.simps) simp

lemma digit_cases: "d < 16 \<Longrightarrow> d \<in> {0,1,2,3,4,5,6,7,8,9,10,11,12,13,14,15::nat}"
  by (simp, arith)

lemma digit_char_index: "d < 16 \<Longrightarrow> digit_index ''0123456789abcdef'' (digit_char d) = d"
  using digit_cases[of d] by (auto simp: digit_char_def digit_index_def)

lemma hex_digit_is_hex: "d < 16 \<Longrightarrow> is_hex_digit (digit_char d)"
  using digit_cases[of d] by (auto simp: digit_char_def is_hex_digit_def)

lemma hex_value_snoc:
  "hex_value (s @ [c]) = 16 * hex_value s + digit_index ''0123456789abcdef'' c"
  by (simp add: hex_value_def)

lemma hex_value_toString16: "hex_value (toString16 n) = n"
proof (induction n rule: toString16.induct)
  case (1 n)
  show ?case
  proof (cases "n < 16")
    case True
    then show ?thesis by (simp add: toString16_small hex_value_def digit_char_index)
  next
    case False
    with 1 have "hex_value (toString16 (n div 16)) = n div 16" by simp
    with False show ?thesis
      by (simp add: toString16_big hex_value_snoc digit_char_index)
  qed
qed

lemma toString16_hex: "list_all is_hex_digit (toString16 n)"
proof (induction n rule: toString16.induct)
  case (1 n)
  show ?case
  proof (cases "n < 16")
    case True
    then show ?thesis by (simp add: toString16_small hex_digit_is_hex)
  next
    case False
    with 1 have "list_all is_hex_digit (toString16 (n div 16))" by simp
    with False show ?thesis
      by (simp add: toString16_big hex_digit_is_hex)
  qed
qed

lemma hex_value_zero_cons: "hex_value (CHR ''0'' # s) = hex_value s"
  by (simp add: hex_value_def digit_index_def)

lemma serial_value: "hex_value (fst (getNextSerialNumber n)) = n"
  by (simp add: getNextSerialNumber_def Let_def hex_value_zero_cons hex_value_toString16)

lemma serial_even: "even (length (fst (getNextSerialNumber n)))"
  by (simp add: getNextSerialNumber_def Let_def) presburger

lemma serial_hex: "list_all is_hex_digit (fst (getNextSerialNumber n))"
  by (simp add: getNextSerialNumber_def Let_def toString16_hex is_hex_digit_def)

lemma counter_after_eq: "counter_after k = min (k + 1) (2 ^ 53)"
proof (induction k)
  case 0
  show ?case by (simp add: counter_after_def)
next
  case (Suc k)
  have "counter_after (Suc k) = js_incr (counter_after k)"
    by (simp add: counter_after_def)
  with Suc show ?case by (simp add: js_incr_def min_def)
qed

text \<open>
  C9 (as amended). Among the first \<open>2^53\<close> calls of a process (calls number
  \<open>0 .. 2^53 - 1\<close>), a later call returns a serial that is strictly greater, read as a
  hexadecimal number, than the serial of any earlier call; every serial, of any call, is a
  string of hexadecimal digits of even length.
\<close>

theorem serial_strictly_increasing:
  assumes "i < j" and "j < 2 ^ 53"
  shows "hex_value (nth_serial i) < hex_value (nth_serial j)
         \<and> even (length (nth_serial i)) \<and> list_all is_hex_digit (nth_serial i)
         \<and> even (length (nth_serial j)) \<and> list_all is_hex_digit (nth_serial j)"
proof -
  have "hex_value (nth_serial i) = i + 1" "hex_value (nth_serial j) = j + 1"
    using assms by (simp_all add: nth_serial_def serial_value counter_after_eq)
  then show ?thesis
    using assms by (simp add: nth_serial_def serial_even serial_hex)
qed

theorem serial_strictly_increasing_witness:
  "(0::nat) < 1 \<and> (1::nat) < 2 ^ 53
   \<and> hex_value (nth_serial 0) < hex_value (nth_serial 1)
   \<and> even (length (nth_serial 0)) \<and> list_all is_hex_digit (nth_serial 0)
   \<and> even (length (nth_serial 1)) \<and> list_all is_hex_digit (nth_serial 1)"
  using serial_strictly_increasing [of 0 1] by simp

text \<open>
  C9 as stated (every call returns a serial strictly greater than the previous call's)
  fails once the counter has reached \<open>2^53\<close>: call number \<open>2^53\<close> returns the serial of
  call number \<open>2^53 - 1\<close> again.
\<close>

theorem serial_repeats_counterexample:
  "\<not> hex_value (nth_serial (2 ^ 53 - 1)) < hex_value (nth_serial (2 ^ 53))"
  by (simp add: nth_serial_def serial_value counter_after_eq)

section \<open>Properties of acme-server.js\<close>

lemma toString10_small: "n < 10 \<Longrightarrow> toString10 n = [digit_char n]"
  by (simp add: toString10.simps)

subsection \<open>Lookups\<close>

lemma bytes_hex_is_hex: "list_all is_hex_digit (bytes_hex bytes)"
  by (induction bytes) (simp_all add: bytes_hex_def hex_digit_is_hex)

text \<open>
  A thumbprint is never the name of an inherited member: each of these names has a
  character that is no hexadecimal digit.
\<close>

lemma thumbprint_not_inherited:
  "Object_prototype b (bytes_hex digest) = None \<and> bytes_hex digest \<noteq> ''__proto__''"
proof -
  have "\<not> list_all is_hex_digit n"
    if "n = ''__proto__'' \<or> n \<in> set function_members \<or> n = ''status'' \<or> n = ''certificate''"
    for n
    using that by (auto simp: function_members_def is_hex_digit_def)
  then show ?thesis
    using bytes_hex_is_hex [of digest] by (auto simp: Object_prototype_def)
qed

lemma get_reg_find:
  "get_reg w digest = find (\<lambda>r. reg_id r = bytes_hex digest) (db_reg (w_db w))"
  using thumbprint_not_inherited [of "w_builtins w" digest]
  by (simp add: get_reg_def DB_get_def stored_def split: option.splits)

lemma DB_get_Stored:
  "(DB_get b ident bucket i = Stored x)
     = (i \<noteq> ''__proto__'' \<and> find (\<lambda>x. ident x = i) bucket = Some x)"
  by (cases bucket) (auto simp: DB_get_def split: option.splits)

lemma DB_get_not_proto:
  "i \<noteq> ''__proto__'' \<Longrightarrow>
     DB_get b ident bucket i =
       (case find (\<lambda>x. ident x = i) bucket of
          Some x \<Rightarrow> Stored x
        | None \<Rightarrow>
            if bucket = [] then Absent
            else (case Object_prototype b i of None \<Rightarrow> Absent | Some m \<Rightarrow> Inherited m))"
  by (cases bucket) (simp_all add: DB_get_def split: option.splits)

lemma uuid_text_hyphen: "CHR ''-'' \<in> set (uuid_text bytes)"
  by (simp add: uuid_text_def Let_def)

lemma uuid_not_proto: "uuid_text bytes \<noteq> ''__proto__''"
proof
  assume "uuid_text bytes = ''__proto__''"
  with uuid_text_hyphen [of bytes] show False by simp
qed

lemma find_put_by: "find (\<lambda>x. ident x = ident obj) (put_by ident obj xs) = Some obj"
  by (induction xs) auto

lemma find_put_by_id:
  "i = ident obj \<Longrightarrow> find (\<lambda>x. ident x = i) (put_by ident obj xs) = Some obj"
  using find_put_by [of ident obj xs] by simp

lemma find_id: "find (\<lambda>x. ident x = i) xs = Some obj \<Longrightarrow> ident obj = i"
  by (induction xs) (auto split: if_splits)

lemma digest_hex: "bytes_hex digest_a = ''aa11''" "bytes_hex digest_b = ''bb22''" "bytes_hex [] = []"
  by (simp_all add: bytes_hex_def digest_a_def digest_b_def digit_char_def)

lemmas world0_defs =
  srv0_def reg_a_def reg_b_def authz0_def app0_def world0_def no_payload_def

lemmas store_defs =
  get_reg_find get_app_def get_authz_def get_cert_def DB_get_def stored_def authzFor_def
  db_put_def assign_def new_Date_def new_uuid_def makeURL_def digest_hex
  accountKeyThumbprint_def

lemmas response_defs =
  reply_def problem_def unknown_account_def unauthorized_account_def select_def truthy_def
  in_array_def array_get_def

lemmas update_defs =
  Let_def Authorization_update_def date_less_def challenge_toJSON_def toString10_small
  digit_char_def

lemma ext0_calls:
  "uuid_text (uuid_v4 ext0 0) = ''00000000-0000-0000-0000-000000000000''"
  "uuid_text (uuid_v4 ext0 (Suc 0)) = ''00000000-0000-0000-0000-000000000001''"
  "Date_now ext0 n = 1000 + int n"
  "forge_fill ext0 c = True"
  "forge_sign ext0 c serialNumber notBefore notAfter = Some (''DER-'' @ serialNumber)"
  by (simp_all add: ext0_def uuid_text_def bytes_hex_def digit_char_def Let_def)

subsection \<open>Readiness of orders\<close>

lemma filter_empty_all: "(length (filter (\<lambda>x. \<not> P x) xs) = 0) = list_all P xs"
  by (induction xs) auto

lemma markAsReady_eq:
  "markAsReady app =
     (if app_status app = ''pending''
         \<and> list_all (\<lambda>req. rq_status req = ''valid'') (app_requirements app)
      then app\<lparr>app_status := ''ready''\<rparr> else app)"
  using filter_empty_all [of "\<lambda>req. rq_status req = ''valid''" "app_requirements app"]
  by (simp add: markAsReady_def Let_def)

text \<open>
  C5 (as amended). \<open>markAsReady\<close> sets the status to \<open>ready\<close> if and only if the status is
  \<open>pending\<close> and every requirement has status \<open>valid\<close>, and changes nothing otherwise.
  \<open>updateAppsFor\<close> leaves the applications of other accounts as they are; for every stored
  application of the authorization's account it rewrites each requirement with the
  authorization's URL to the authorization's status and then calls \<open>markAsReady\<close>, so that
  afterwards the application is \<open>ready\<close> exactly when it was \<open>ready\<close> before, or it was
  \<open>pending\<close> and all its requirements are now \<open>valid\<close>.
\<close>

theorem updateAppsFor_ready:
  assumes "i < length (db_app db)"
  shows "markAsReady app =
           (if app_status app = ''pending''
               \<and> list_all (\<lambda>req. rq_status req = ''valid'') (app_requirements app)
            then app\<lparr>app_status := ''ready''\<rparr> else app)
    \<and> length (db_app (updateAppsFor authz db)) = length (db_app db)
    \<and> (app_thumbprint (db_app db ! i) \<noteq> authz_thumbprint authz
         \<longrightarrow> db_app (updateAppsFor authz db) ! i = db_app db ! i)
    \<and> (app_thumbprint (db_app db ! i) = authz_thumbprint authz
         \<longrightarrow> db_app (updateAppsFor authz db) ! i =
             markAsReady ((db_app db ! i)\<lparr>app_requirements :=
                map (rewrite_requirement authz) (app_requirements (db_app db ! i))\<rparr>)
           \<and> ((app_status (db_app (updateAppsFor authz db) ! i) = ''ready'')
             = (app_status (db_app db ! i) = ''ready''
                \<or> (app_status (db_app db ! i) = ''pending''
                    \<and> list_all (\<lambda>req. rq_status req = ''valid'')
                         (app_requirements (db_app (updateAppsFor authz db) ! i))))))"
  using assms by (auto simp: markAsReady_eq updateAppsFor_def Let_def)

theorem updateAppsFor_ready_witness:
  "0 < length (db_app (w_db world0))
   \<and> app_thumbprint (db_app (w_db world0) ! 0)
       = authz_thumbprint (authz0\<lparr>authz_status := ''valid''\<rparr>)
   \<and> app_status (db_app (w_db world0) ! 0) = ''pending''
   \<and> app_status (db_app (updateAppsFor (authz0\<lparr>authz_status := ''valid''\<rparr>) (w_db world0)) ! 0)
       = ''ready''
   \<and> list_all (\<lambda>req. rq_status req = ''valid'')
        (app_requirements
           (db_app (updateAppsFor (authz0\<lparr>authz_status := ''valid''\<rparr>) (w_db world0)) ! 0))"
  using updateAppsFor_ready [of 0 "w_db world0" app0 "authz0\<lparr>authz_status := ''valid''\<rparr>"]
  by (simp add: world0_defs rewrite_requirement_def markAsReady_eq)

text \<open>
  C5 as stated (an order is \<open>ready\<close> exactly when it was \<open>pending\<close> and all its
  requirements are \<open>valid\<close>) fails for an order that is already \<open>ready\<close>: when its
  authorization has become \<open>invalid\<close>, \<open>updateAppsFor\<close> rewrites the requirement to
  \<open>invalid\<close> and \<open>markAsReady\<close> leaves the status \<open>ready\<close>.
\<close>

theorem ready_with_invalid_requirement_counterexample:
  "app_thumbprint ready_app = authz_thumbprint expired_authz
   \<and> db_app ready_db = [ready_app]
   \<and> app_status (db_app (updateAppsFor expired_authz ready_db) ! 0) = ''ready''
   \<and> \<not> (app_status ready_app = ''pending''
          \<and> list_all (\<lambda>req. rq_status req = ''valid'')
               (app_requirements (db_app (updateAppsFor expired_authz ready_db) ! 0)))
   \<and> \<not> list_all (\<lambda>req. rq_status req = ''valid'')
               (app_requirements (db_app (updateAppsFor expired_authz ready_db) ! 0))"
  by (simp add: world0_defs ready_app_def expired_authz_def ready_db_def updateAppsFor_def
        rewrite_requirement_def markAsReady_eq)

subsection \<open>The status of an authorization\<close>

lemma challenge_statuses:
  "map cj_status
     (map (\<lambda>(i, x). (challenge_toJSON x)\<lparr>cj_url := Some (u i)\<rparr>) (enumerate n xs))
   = map ch_status xs"
  by (induction xs arbitrary: n) (simp_all add: challenge_toJSON_def)

lemma filter_nonempty: "(0 < length (filter (\<lambda>x. f x = v) cs)) = (v \<in> set (map f cs))"
  by (induction cs) auto

lemma list_ex_set: "list_ex (\<lambda>x. f x = v) xs = (v \<in> set (map f xs))"
  by (induction xs) auto

lemma valid_challenges:
  "(0 < length (filter (\<lambda>x. cj_status x = ''valid'')
     (map (\<lambda>(i, x). (challenge_toJSON x)\<lparr>cj_url := Some (u i)\<rparr>) (enumerate n xs))))
   = list_ex (\<lambda>x. ch_status x = ''valid'') xs"
  by (simp only: filter_nonempty challenge_statuses list_ex_set)

text \<open>
  C6 (as amended). \<open>update\<close> derives the status as: if the expires instant is strictly
  earlier than the current time, \<open>invalid\<close>; otherwise, if at least one challenge has
  status \<open>valid\<close>, \<open>valid\<close>; otherwise the status is left as it was. At \<open>now = expires\<close>
  the first case does not apply (nor does it for an invalid date).
\<close>

theorem Authorization_update_status:
  "authz_status (Authorization_update now this) =
     (if date_less (authz_expires this) now then ''invalid''
      else if list_ex (\<lambda>x. ch_status x = ''valid'') (authz_challengeObj this) then ''valid''
      else authz_status this)
   \<and> date_less (Some expires) now = (expires < now)
   \<and> date_less None now = False"
  unfolding Authorization_update_def Let_def valid_challenges
  by (simp add: date_less_def)

text \<open>
  C6 as stated (at \<open>now = expires\<close> the status is already \<open>invalid\<close>) fails: the pending
  authorization that expires at 5000 is still pending after \<open>update\<close> at time 5000.
\<close>

theorem expiry_boundary_counterexample:
  "authz_expires authz0 = Some 5000
   \<and> authz_status authz0 = ''pending''
   \<and> authz_status (Authorization_update 5000 authz0) = ''pending''"
  by (simp add: Authorization_update_def Let_def date_less_def authz0_def challenge_toJSON_def)

subsection \<open>getAuthz\<close>

text \<open>
  C10 (as amended). \<open>getAuthz\<close> has no existence check. For a request of a registered
  account that names an id under which no authorization is stored: if no authorization
  was ever stored, or the id is not a name that object literals inherit, the handler reads
  \<open>status\<close> of the empty lookup and throws a \<open>TypeError\<close>, the state unchanged; if the id
  is such a name (\<open>constructor\<close>, \<open>toString\<close>, \<open>__proto__\<close>, ...), the handler answers 201
  with the \<open>status\<close> of the inherited member, no identifier and the URL \<open>undefined/0\<close>.
  And no request at all is answered with 404: every response of the handler has status
  401 or 201.
\<close>

theorem getAuthz_without_stored_authorization:
  assumes "get_reg w (req_accountKeyDigest req) = Some reg"
      and "find (\<lambda>authz. authz_id authz = req_id req) (db_authz (w_db w)) = None"
  shows "getAuthz req w =
           (if db_authz (w_db w) = [] then (Throws ''TypeError'', w)
            else case Object_prototype (w_builtins w) (req_id req) of
                   None \<Rightarrow> (Throws ''TypeError'', w)
                 | Some m \<Rightarrow>
                     (Responded \<lparr>rs_status = 201, rs_location = None, rs_link_terms = None,
                                  rs_body = Some (AuthzBody
                                    \<lparr>aj_status = member_status (w_builtins w) m,
                                     aj_identifier = None,
                                     aj_challenges =
                                       [(''http-01'', ''token'', ''undefined/0'')]\<rparr>)\<rparr>,
                      w))
         \<and> (req_id req \<notin> set (''__proto__'' # ''status'' # ''certificate'' # function_members)
              \<longrightarrow> getAuthz req w = (Throws ''TypeError'', w))
         \<and> (\<forall>req' w' r. fst (getAuthz req' w') = Responded r
                \<longrightarrow> rs_status r = 401 \<or> rs_status r = 201)
         \<and> (\<forall>req' w' n. fst (getAuthz req' w') \<noteq> NeverResponds n)"
proof -
  have lookup: "get_authz w (req_id req) =
                  (if db_authz (w_db w) = [] then Absent
                   else case Object_prototype (w_builtins w) (req_id req) of
                          None \<Rightarrow> Absent | Some m \<Rightarrow> Inherited m)"
    using assms(2) by (simp add: get_authz_def DB_get_def)
  have first: "getAuthz req w =
           (if db_authz (w_db w) = [] then (Throws ''TypeError'', w)
            else case Object_prototype (w_builtins w) (req_id req) of
                   None \<Rightarrow> (Throws ''TypeError'', w)
                 | Some m \<Rightarrow>
                     (Responded \<lparr>rs_status = 201, rs_location = None, rs_link_terms = None,
                                  rs_body = Some (AuthzBody
                                    \<lparr>aj_status = member_status (w_builtins w) m,
                                     aj_identifier = None,
                                     aj_challenges =
                                       [(''http-01'', ''token'', ''undefined/0'')]\<rparr>)\<rparr>,
                      w))"
    using assms(1) by (simp add: getAuthz_def lookup reply_def split: option.splits)
  have second: "req_id req \<notin> set (''__proto__'' # ''status'' # ''certificate'' # function_members)
                  \<Longrightarrow> getAuthz req w = (Throws ''TypeError'', w)"
    by (simp add: first Object_prototype_def)
  have third: "rs_status r = 401 \<or> rs_status r = 201"
    if "fst (getAuthz req' w') = Responded r" for req' w' r
    using that
    by (auto simp: getAuthz_def unknown_account_def reply_def
             split: option.splits lookup.splits)
  have fourth: "fst (getAuthz req' w') \<noteq> NeverResponds n" for req' w' n
    by (auto simp: getAuthz_def unknown_account_def split: option.splits lookup.splits)
  from first second third fourth show ?thesis by blast
qed

theorem getAuthz_without_stored_authorization_witness:
  "get_reg world0 (req_accountKeyDigest req_missing) = Some reg_a
   \<and> find (\<lambda>authz. authz_id authz = req_id req_missing) (db_authz (w_db world0)) = None
   \<and> Object_prototype (w_builtins world0) (req_id req_missing) = None
   \<and> getAuthz req_missing world0 = (Throws ''TypeError'', world0)"
  using getAuthz_without_stored_authorization [of world0 req_missing reg_a]
  by (simp add: world0_defs store_defs req_missing_def Object_prototype_def
        function_members_def)

text \<open>
  C10 as stated (every request of a registered account that names an id with no stored
  authorization reads \<open>status\<close> of a null lookup) fails: once an authorization is stored,
  the lookup of \<open>constructor\<close> finds the function that every object literal inherits
  under that name, nothing throws, and the request is answered with 201, with no status,
  no identifier and the challenge URL \<open>undefined/0\<close>.
\<close>

theorem getAuthz_inherited_member_counterexample:
  "get_reg world0 (req_accountKeyDigest req_constructor) = Some reg_a
   \<and> find (\<lambda>authz. authz_id authz = req_id req_constructor) (db_authz (w_db world0)) = None
   \<and> getAuthz req_constructor world0 =
       (Responded \<lparr>rs_status = 201, rs_location = None, rs_link_terms = None,
                    rs_body = Some (AuthzBody
                      \<lparr>aj_status = None, aj_identifier = None,
                       aj_challenges = [(''http-01'', ''token'', ''undefined/0'')]\<rparr>)\<rparr>,
        world0)"
  by (simp add: getAuthz_def req_constructor_def world0_defs store_defs response_defs
        Object_prototype_def function_members_def member_status_def)

subsection \<open>fetchChallenge\<close>

text \<open>
  C3. The claim: GET /authz/I/k returns the challenge at index \<open>k\<close> with its actual,
  unmodified status. The code assigns \<open>authz.challenges[0].status = 'valid'\<close> before it
  sends: for the authorization \<open>z1\<close>, whose only challenge is pending, the response to
  index 0 says \<open>valid\<close>, while the challenge object and the authorization in the store are
  still pending.
\<close>

theorem fetchChallenge_reports_valid:
  "fst (fetchChallenge ext0 req_fetch0 world0) =
     Responded (reply 200 (Some (ChallengeBody
       \<lparr>cj_type = ''auto'', cj_status = ''valid'',
        cj_url = Some ''http://localhost/authz/z1/0''\<rparr>)))
   \<and> map_option authz_challengeObj
         (stored (get_authz (snd (fetchChallenge ext0 req_fetch0 world0)) ''z1''))
       = Some [\<lparr>ch_type = ''auto'', ch_status = ''pending''\<rparr>]
   \<and> map_option authz_status
         (stored (get_authz (snd (fetchChallenge ext0 req_fetch0 world0)) ''z1''))
       = Some ''pending''"
  by (simp add: fetchChallenge_def req_fetch0_def ext0_calls world0_defs store_defs
        response_defs update_defs)

subsection \<open>updateReg\<close>

text \<open>
  C4. The claim: a request whose agreement is not the server's terms URL is answered with
  400 and leaves the stored registration unchanged, its contact too. The code assigns
  \<open>reg.contact\<close> to the stored object before it compares the agreement: the request is
  answered with 400 and the registration's contact is the one of the rejected request.
\<close>

theorem updateReg_keeps_contact_of_rejected_request:
  "fst (updateReg srv0 req_wrong_agreement world0) =
     Responded (reply 400 (Some (problem ''malformed'' ''Incorrect agreement URL'' None)))
   \<and> accountKeyThumbprint req_wrong_agreement = ''aa11''
   \<and> map_option reg_contact (get_reg world0 digest_a)
       = Some (Some [''mailto:a@example.com''])
   \<and> map_option reg_contact
         (get_reg (snd (updateReg srv0 req_wrong_agreement world0)) digest_a)
       = Some (Some [''mailto:new@example.org''])"
  by (simp add: updateReg_def req_wrong_agreement_def world0_defs store_defs response_defs
        Let_def)

subsection \<open>updateAuthz\<close>

text \<open>
  The steps of a successful request, in their order: the challenge's \<open>update\<close>, the
  authorization's \<open>update\<close>, \<open>updateAppsFor\<close>, and then the response with status 200, sent
  in the state that \<open>updateAppsFor\<close> left.
\<close>

lemma updateAuthz_steps:
  assumes "get_authz w (req_id req) = Stored authz"
      and "req_index req = Some index"
      and "in_array index (authz_challenges authz)"
      and "in_array index (authz_challengeObj authz)"
      and "get_reg w (req_accountKeyDigest req) = Some reg"
      and "reg_id reg = authz_thumbprint authz"
  shows "\<exists>w1 w3 w4 r.
           updateAuthz ext req w =
             [(Challenge_update index (res_payload req), w1), (Authorization_updated, w3),
              (Apps_updated, w4), (Response (Responded r), w4)]
           \<and> rs_status r = 200"
  using assms
  by (simp add: updateAuthz_def array_get_def Let_def split_def reply_def)

text \<open>
  C8. The claim: the handler calls the challenge object's \<open>update\<close> with the request's
  parsed payload, then recomputes the authorization, then runs \<open>updateAppsFor\<close>, and only
  then responds. The order is as claimed, but the argument of \<open>update\<close> is \<open>res.payload\<close>:
  for a request whose payload has a \<open>keyAuthorization\<close>, the challenge's \<open>update\<close> is
  called with \<open>undefined\<close>, not with that payload.
\<close>

theorem updateAuthz_passes_res_payload:
  "map fst (updateAuthz ext0 req_challenge world0) =
     [Challenge_update 0 None, Authorization_updated, Apps_updated,
      Response (Responded (reply 200 (Some (ChallengeBody
        \<lparr>cj_type = ''auto'', cj_status = ''valid'',
         cj_url = Some ''http://localhost/authz/z1/0''\<rparr>))))]
   \<and> p_others (req_payload req_challenge) = [(''keyAuthorization'', ''token.thumbprint'')]
   \<and> hd (map fst (updateAuthz ext0 req_challenge world0))
       \<noteq> Challenge_update 0 (Some (req_payload req_challenge))"
  by (simp add: updateAuthz_def req_challenge_def ext0_calls world0_defs store_defs
        response_defs update_defs challenge_update_def)

subsection \<open>finalizeOrder\<close>

lemma new_Authorization_world:
  "w_db (snd (new_Authorization srv ext t name scope w)) = w_db w
   \<and> w_builtins (snd (new_Authorization srv ext t name scope w)) = w_builtins w
   \<and> w_nextSerialNumber (snd (new_Authorization srv ext t name scope w)) = w_nextSerialNumber w"
  by (simp add: new_Authorization_def new_uuid_def new_Date_def Let_def split_def)

lemma ensure_authz_keeps:
  "db_app (w_db (ensure_authz srv ext t scope w name)) = db_app (w_db w)
   \<and> db_cert (w_db (ensure_authz srv ext t scope w name)) = db_cert (w_db w)
   \<and> w_builtins (ensure_authz srv ext t scope w name) = w_builtins w
   \<and> w_nextSerialNumber (ensure_authz srv ext t scope w name) = w_nextSerialNumber w"
  by (simp add: ensure_authz_def assign_def db_put_def split_def Let_def new_Authorization_world
           split: option.splits)

lemma ensure_all_keeps:
  "db_app (w_db (foldl (ensure_authz srv ext t scope) w names)) = db_app (w_db w)
   \<and> db_cert (w_db (foldl (ensure_authz srv ext t scope) w names)) = db_cert (w_db w)
   \<and> w_builtins (foldl (ensure_authz srv ext t scope) w names) = w_builtins w
   \<and> w_nextSerialNumber (foldl (ensure_authz srv ext t scope) w names) = w_nextSerialNumber w"
  by (induction names arbitrary: w) (simp_all add: ensure_authz_keeps)

lemma ensure_all_keeps_reg:
  "db_reg (w_db (foldl (ensure_authz srv ext t scope) w names)) = db_reg (w_db w)"
proof (induction names arbitrary: w)
  case Nil
  show ?case by simp
next
  case (Cons name names)
  have "db_reg (w_db (ensure_authz srv ext t scope w name)) = db_reg (w_db w)"
    by (simp add: ensure_authz_def assign_def db_put_def split_def Let_def
          new_Authorization_world split: option.splits)
  with Cons show ?case by simp
qed

lemma order_notBefore_result:
  "fst (order_notBefore ext notBefore w) =
     (case select notBefore of
        Some s \<Rightarrow> DateString s
      | None \<Rightarrow> DateAt (Date_now ext (w_dates w)))
   \<and> snd (order_notBefore ext notBefore w) =
       (case select notBefore of
          Some s \<Rightarrow> w
        | None \<Rightarrow> w\<lparr>w_dates := w_dates w + 1\<rparr>)"
  by (simp add: order_notBefore_def new_Date_def split: option.splits)

lemma order_notAfter_result:
  "fst (order_notAfter ext notAfter w) =
     (case select notAfter of
        Some s \<Rightarrow> DateString s
      | None \<Rightarrow> DateYearAfter (Date_now ext (w_dates w)) (Date_now ext (w_dates w + 1)))
   \<and> snd (order_notAfter ext notAfter w) =
       (case select notAfter of
          Some s \<Rightarrow> w
        | None \<Rightarrow> w\<lparr>w_dates := w_dates w + 2\<rparr>)"
  by (simp add: order_notAfter_def new_Date_def split: option.splits)

text \<open>
  C2 (as amended). \<open>finalizeOrder\<close> checks neither who owns the order nor whether it
  is ready. For a registered account and any order in the store, whatever the order's
  thumbprint, status and requirements, and a request with a CSR that passes \<open>checkCSR\<close>,
  the handler marks the order as \<open>processing\<close>, takes the dates of the order (or the
  current time and a year after it), makes sure that the account has an authorization for
  every name of the CSR, and calls the CA with the CSR, the next serial number and the
  dates:

  \<^item> if the CA returns a certificate, the request is answered with 201 and the order;
    afterwards the order has status \<open>valid\<close> and the URL of the new certificate, the
    certificate is stored under a new id with the DER text the CA returned, and the serial
    counter has advanced;

  \<^item> if the CA throws, the exception leaves the handler: nothing is answered, no
    certificate is stored and the order is left with status \<open>processing\<close>; the serial
    counter has advanced if the CA threw after it took the serial.
\<close>

theorem finalizeOrder_no_ownership_or_readiness_check:
  assumes reg: "get_reg w (req_accountKeyDigest req) = Some account"
      and order: "get_app w (req_id req) = Stored order"
      and csr: "p_csr (req_payload req) = Some c" "c \<noteq> []"
      and passes: "checkCSR (unicode_lower ext) (forge_parse ext) c = Inr (Names names)"
  shows "let cert_ident = uuid_text (uuid_v4 ext (w_uuids w));
             cert_link = makeURL srv ''cert'' cert_ident;
             scope = (if srv_scopedAuthorizations srv then Some cert_link else None);
             started = (assign (App (order\<lparr>app_status := ''processing''\<rparr>)) w)
                         \<lparr>w_uuids := w_uuids w + 1\<rparr>;
             (notBefore, w1) = order_notBefore ext (app_notBefore order) started;
             (notAfter, w2) = order_notAfter ext (app_notAfter order) w1;
             authorized = foldl (ensure_authz srv ext (accountKeyThumbprint req) scope) w2 names;
             (serialNumber, n) = getNextSerialNumber (w_nextSerialNumber w);
             (out, w') = finalizeOrder srv ext req w
         in case parseCSR (forge_parse ext) c of
              Inl e \<Rightarrow> False
            | Inr parsed \<Rightarrow>
                db_reg (w_db w') = db_reg (w_db w)
                \<and> db_authz (w_db w') = db_authz (w_db authorized)
                \<and> (case (if forge_fill ext parsed
                          then forge_sign ext parsed serialNumber notBefore notAfter
                          else None) of
                      Some der \<Rightarrow>
                        out = Responded
                                \<lparr>rs_status = 201, rs_location = Some (app_url order),
                                 rs_link_terms = None,
                                 rs_body = Some (OrderBody (Application_marshal (w_builtins w)
                                   (order\<lparr>app_status := ''valid'',
                                          app_certificate := Some cert_link\<rparr>)))\<rparr>
                        \<and> get_app w' (req_id req) =
                            Stored (order\<lparr>app_status := ''valid'',
                                          app_certificate := Some cert_link\<rparr>)
                        \<and> get_cert w' cert_ident =
                            Stored \<lparr>cert_id = cert_ident, cert_url = cert_link,
                                    cert_body = der\<rparr>
                        \<and> w_nextSerialNumber w' = n
                    | None \<Rightarrow>
                        out = Throws ''Error''
                        \<and> get_app w' (req_id req) =
                            Stored (order\<lparr>app_status := ''processing''\<rparr>)
                        \<and> db_cert (w_db w') = db_cert (w_db w)
                        \<and> w_nextSerialNumber w' =
                            (if forge_fill ext parsed then n else w_nextSerialNumber w))"
proof -
  define cert_ident where "cert_ident = uuid_text (uuid_v4 ext (w_uuids w))"
  define cert_link where "cert_link = makeURL srv ''cert'' cert_ident"
  define scope where "scope = (if srv_scopedAuthorizations srv then Some cert_link else None)"
  define processing where "processing = order\<lparr>app_status := ''processing''\<rparr>"
  define valid where
    "valid = order\<lparr>app_status := ''valid'', app_certificate := Some cert_link\<rparr>"
  define started where "started = (assign (App processing) w)\<lparr>w_uuids := w_uuids w + 1\<rparr>"
  define before where "before = order_notBefore ext (app_notBefore order) started"
  define after where "after = order_notAfter ext (app_notAfter order) (snd before)"
  define authorized where
    "authorized =
       foldl (ensure_authz srv ext (accountKeyThumbprint req) scope) (snd after) names"
  define issued where
    "issued = issueCRT ext c (fst before) (fst after) (w_nextSerialNumber authorized)"
  define w6 where "w6 = authorized\<lparr>w_nextSerialNumber := snd issued\<rparr>"
  define serial where "serial = getNextSerialNumber (w_nextSerialNumber w)"
  define result where "result = finalizeOrder srv ext req w"
  have found: "req_id req \<noteq> ''__proto__''"
              "find (\<lambda>x. app_id x = req_id req) (db_app (w_db w)) = Some order"
    using order by (simp_all add: get_app_def DB_get_Stored)
  have id: "app_id order = req_id req"
    using found(2) find_id [of app_id "req_id req" "db_app (w_db w)" order] by simp
  have fin: "finalize_csr ext (req_payload req) = Inr (names, c)"
    using csr passes by (simp add: finalize_csr_def)
  obtain parsed where parsed: "parseCSR (forge_parse ext) c = Inr parsed"
    using passes by (auto simp: checkCSR_def split: sum.splits)
  have run: "result =
               (case fst issued of
                  None \<Rightarrow> (Throws ''Error'', w6)
                | Some der \<Rightarrow>
                    (Responded ((reply 201 (Some (OrderBody
                        (Application_marshal (w_builtins w6) valid))))
                        \<lparr>rs_location := Some (app_url order)\<rparr>),
                     assign (Cert \<lparr>cert_id = cert_ident, cert_url = cert_link,
                                     cert_body = der\<rparr>)
                       (assign (App valid) w6)))"
    using reg order fin
    by (simp add: result_def finalizeOrder_def Let_def split_def new_Certificate_def
          new_uuid_def assign_def w6_def issued_def authorized_def after_def before_def
          started_def valid_def processing_def scope_def cert_link_def cert_ident_def
          split: option.splits)
  have state: "db_app (w_db authorized) = put_by app_id processing (db_app (w_db w))"
              "db_cert (w_db authorized) = db_cert (w_db w)"
              "w_builtins authorized = w_builtins w"
              "w_nextSerialNumber authorized = w_nextSerialNumber w"
    by (simp_all add: authorized_def ensure_all_keeps after_def before_def
          order_notBefore_result order_notAfter_result started_def assign_def db_put_def
          split: option.splits)
  have regs: "db_reg (w_db authorized) = db_reg (w_db w)"
    by (simp add: authorized_def ensure_all_keeps_reg after_def before_def
          order_notBefore_result order_notAfter_result started_def assign_def db_put_def
          split: option.splits)
  have issue: "issued =
                 (if forge_fill ext parsed
                  then (forge_sign ext parsed (fst serial) (fst before) (fst after), snd serial)
                  else (None, w_nextSerialNumber w))"
    by (simp add: issued_def issueCRT_def parsed state split_def Let_def serial_def)
  have cert_ok: "cert_ident \<noteq> ''__proto__''"
    by (simp add: cert_ident_def uuid_not_proto)
  have app_after: "get_app (assign (Cert crt) (assign (App a) w6)) (req_id req) = Stored a"
    if "app_id a = req_id req" for crt a
    using that found(1)
    by (simp add: get_app_def assign_def db_put_def w6_def state DB_get_not_proto
          find_put_by_id)
  have cert_after: "get_cert (assign (Cert crt) (assign (App a) w6)) (cert_id crt) = Stored crt"
    if "cert_id crt = cert_ident" for crt a
    using that cert_ok
    by (simp add: get_cert_def assign_def db_put_def DB_get_not_proto find_put_by_id)
  have app_failed: "get_app w6 (req_id req) = Stored processing"
    using found(1) id
    by (simp add: get_app_def w6_def state DB_get_not_proto find_put_by_id processing_def)
  have valid_id: "app_id valid = req_id req"
    using id by (simp add: valid_def)
  have main:
    "db_reg (w_db (snd result)) = db_reg (w_db w)
     \<and> db_authz (w_db (snd result)) = db_authz (w_db authorized)
     \<and> (case (if forge_fill ext parsed
               then forge_sign ext parsed (fst serial) (fst before) (fst after)
               else None) of
           Some der \<Rightarrow>
             fst result = Responded
                     \<lparr>rs_status = 201, rs_location = Some (app_url order),
                      rs_link_terms = None,
                      rs_body = Some (OrderBody (Application_marshal (w_builtins w) valid))\<rparr>
             \<and> get_app (snd result) (req_id req) = Stored valid
             \<and> get_cert (snd result) cert_ident =
                 Stored \<lparr>cert_id = cert_ident, cert_url = cert_link, cert_body = der\<rparr>
             \<and> w_nextSerialNumber (snd result) = snd serial
         | None \<Rightarrow>
             fst result = Throws ''Error''
             \<and> get_app (snd result) (req_id req) = Stored processing
             \<and> db_cert (w_db (snd result)) = db_cert (w_db w)
             \<and> w_nextSerialNumber (snd result) =
                 (if forge_fill ext parsed then snd serial else w_nextSerialNumber w))"
  proof (cases "fst issued")
    case None
    then show ?thesis
      using app_failed issue
      by (simp add: run state regs w6_def split: if_splits)
  next
    case (Some der)
    then show ?thesis
      using issue app_after [OF valid_id]
            cert_after [of "\<lparr>cert_id = cert_ident, cert_url = cert_link, cert_body = der\<rparr>"
                          valid]
      by (simp add: run state regs w6_def assign_def db_put_def reply_def split: if_splits)
  qed
  show ?thesis
    using main parsed
    by (simp add: Let_def split_def result_def serial_def authorized_def after_def
          before_def started_def valid_def processing_def scope_def cert_link_def
          cert_ident_def
          cong: option.case_cong if_cong)
qed

lemma parse0: "parseCSR (forge_parse ext0) text = Inr example_csr"
  by (simp add: parseCSR_def ext0_def)

lemma csr0: "checkCSR lower (forge_parse ext0) ''MIIC'' = Inr (Names [''example.com''])"
  by (simp add: checkCSR_def parse0) (simp add: example_csr_def checkCSR_defs)

lemma serial0: "getNextSerialNumber (Suc 0) = (''01'', 2)"
  by (simp add: getNextSerialNumber_def toString16_small digit_char_def js_incr_def)

lemma issue0: "issueCRT ext0 ''MIIC'' notBefore notAfter (Suc 0) = (Some ''DER-01'', 2)"
  by (simp add: issueCRT_def parse0 serial0 ext0_calls)

text \<open>
  Account \<open>bb22\<close> finalizes the order \<open>o1\<close> of account \<open>aa11\<close>, which is pending with a
  pending requirement.
\<close>

theorem finalizeOrder_no_ownership_or_readiness_check_witness:
  "get_reg world0 (req_accountKeyDigest req_b_finalize) = Some reg_b
   \<and> get_app world0 (req_id req_b_finalize) = Stored app0
   \<and> app_thumbprint app0 \<noteq> accountKeyThumbprint req_b_finalize
   \<and> app_status app0 = ''pending''
   \<and> map rq_status (app_requirements app0) = [''pending'']
   \<and> p_csr (req_payload req_b_finalize) = Some ''MIIC''
   \<and> checkCSR (unicode_lower ext0) (forge_parse ext0) ''MIIC''
       = Inr (Names [''example.com''])
   \<and> parseCSR (forge_parse ext0) ''MIIC'' = Inr example_csr
   \<and> getNextSerialNumber (w_nextSerialNumber world0) = (''01'', 2)
   \<and> forge_sign ext0 example_csr ''01'' (DateAt 1000) (DateYearAfter 1001 1002)
       = Some ''DER-01''
   \<and> fst (finalizeOrder srv0 ext0 req_b_finalize world0) =
        Responded \<lparr>rs_status = 201, rs_location = Some ''http://localhost/app/o1'',
                    rs_link_terms = None,
                    rs_body = Some (OrderBody (Application_marshal (w_builtins world0)
                       (app0\<lparr>app_status := ''valid'',
                             app_certificate := Some
                               ''http://localhost/cert/00000000-0000-0000-0000-000000000000''\<rparr>)))\<rparr>
   \<and> get_app (snd (finalizeOrder srv0 ext0 req_b_finalize world0)) ''o1'' =
        Stored (app0\<lparr>app_status := ''valid'',
                      app_certificate := Some
                        ''http://localhost/cert/00000000-0000-0000-0000-000000000000''\<rparr>)
   \<and> get_cert (snd (finalizeOrder srv0 ext0 req_b_finalize world0))
         ''00000000-0000-0000-0000-000000000000'' =
        Stored \<lparr>cert_id = ''00000000-0000-0000-0000-000000000000'',
                cert_url = ''http://localhost/cert/00000000-0000-0000-0000-000000000000'',
                cert_body = ''DER-01''\<rparr>
   \<and> w_nextSerialNumber (snd (finalizeOrder srv0 ext0 req_b_finalize world0)) = 2
   \<and> map (\<lambda>authz. (authz_id authz, authz_thumbprint authz, idf_value (authz_identifier authz)))
         (db_authz (w_db (snd (finalizeOrder srv0 ext0 req_b_finalize world0)))) =
        [(''z1'', ''aa11'', ''example.com''),
         (''00000000-0000-0000-0000-000000000001'', ''bb22'', ''example.com'')]"
  using finalizeOrder_no_ownership_or_readiness_check
          [of world0 req_b_finalize reg_b app0 "''MIIC''" ext0 "[''example.com'']" srv0]
  by (simp add: finalizeOrder_def finalize_csr_def csr0 parse0 serial0 issue0 ext0_calls
          req_b_finalize_def new_Certificate_def ensure_authz_def new_Authorization_def
          order_notBefore_def order_notAfter_def TimeClip_def world0_defs store_defs
          response_defs update_defs Object_prototype_def function_members_def)

text \<open>
  C2 as stated (every such request issues a certificate and is answered with 201) fails
  when the CA does not return: on a server that was made without a CA key, account
  \<open>bb22\<close> finalizes the pending order \<open>o1\<close> of account \<open>aa11\<close> with a CSR that passes
  \<open>checkCSR\<close>; the exception of \<open>issueCRT\<close> leaves the handler, no response is sent, no
  certificate is stored, and the order stays in the status \<open>processing\<close> that was assigned
  to it before.
\<close>

theorem finalizeOrder_CA_throws_counterexample:
  "get_reg world0 (req_accountKeyDigest req_b_finalize) = Some reg_b
   \<and> get_app world0 (req_id req_b_finalize) = Stored app0
   \<and> p_csr (req_payload req_b_finalize) = Some ''MIIC''
   \<and> checkCSR (unicode_lower ext_no_ca) (forge_parse ext_no_ca) ''MIIC''
       = Inr (Names [''example.com''])
   \<and> fst (finalizeOrder srv0 ext_no_ca req_b_finalize world0) = Throws ''Error''
   \<and> get_app (snd (finalizeOrder srv0 ext_no_ca req_b_finalize world0)) ''o1''
       = Stored (app0\<lparr>app_status := ''processing''\<rparr>)
   \<and> db_cert (w_db (snd (finalizeOrder srv0 ext_no_ca req_b_finalize world0))) = []"
  by (simp add: finalizeOrder_def finalize_csr_def req_b_finalize_def issueCRT_def
        parseCSR_def getNextSerialNumber_def
        ext_no_ca_def ext0_def example_csr_def checkCSR_defs
        new_Certificate_def ensure_authz_def new_Authorization_def order_notBefore_def
        order_notAfter_def TimeClip_def world0_defs store_defs response_defs update_defs)

section \<open>Properties of jose.js\<close>




end
